theory Spec2Isabelle
  imports Complex_Main "HOL-Library.Sublist"
begin

section \<open>Python values and exceptions\<close>

text \<open>
  The values that travel through both components: SQL literals, dataframe cells and
  remote-call parameters. A Python float is either a finite (dyadic) rational, an
  infinity with its sign, or not-a-number; how the interpreter rounds is never decided
  here, every conversion that rounds or parses is a parameter (\<open>builtins\<close> below).
  Python objects of other classes are outside the model. A text is a list of
  characters, and a character is a code point below 256 (Latin-1); text with other
  code points is outside the model.
\<close>

datatype pyfloat = Finite rat | Infinity bool | NaN

datatype pyval = PNone | PBool bool | PInt int | PFloat pyfloat | PStr string

text \<open>
  An exception is its class and the text \<open>str(e)\<close>. The classes named are the ones the
  source raises or catches; \<open>OtherException n\<close> is any further subclass of
  \<open>Exception\<close> called \<open>n\<close> that derives from none of the named ones.
\<close>

datatype exn_class =
    AttributeError | ValidationError | NotImplementedError | ValueError | TypeError
  | IndexError | KeyError | OverflowError | Exception | DBHandlerException
  | OtherException string

datatype exn = Exn exn_class string

fun class_name :: "exn_class \<Rightarrow> string" where
  "class_name AttributeError = ''AttributeError''"
| "class_name ValidationError = ''ValidationError''"
| "class_name NotImplementedError = ''NotImplementedError''"
| "class_name ValueError = ''ValueError''"
| "class_name TypeError = ''TypeError''"
| "class_name IndexError = ''IndexError''"
| "class_name KeyError = ''KeyError''"
| "class_name OverflowError = ''OverflowError''"
| "class_name Exception = ''Exception''"
| "class_name DBHandlerException = ''DBHandlerException''"
| "class_name (OtherException n) = n"

text \<open>\<open>str(x)\<close> of an optional string, as an f-string renders it.\<close>

fun str_opt :: "string option \<Rightarrow> string" where
  "str_opt None = ''None''"
| "str_opt (Some s) = s"

text \<open>
  \<open>str.strip()\<close>: among the code points below 256, \<open>str.isspace\<close> holds for
  9 to 13, 28 to 31, the blank (32), the next-line control (133, U+0085) and the
  no-break space (160, U+00A0).
\<close>

definition is_space :: "char \<Rightarrow> bool" where
  "is_space c =
     (let n = (of_char c :: nat)
      in n = 32 \<or> (9 \<le> n \<and> n \<le> 13) \<or> (28 \<le> n \<and> n \<le> 31) \<or> n = 133 \<or> n = 160)"

definition strip :: "string \<Rightarrow> string" where
  "strip s = rev (dropWhile is_space (rev (dropWhile is_space s)))"

text \<open>Sequencing of steps that may raise: the first exception wins.\<close>

definition bind_exn :: "exn + 'a \<Rightarrow> ('a \<Rightarrow> exn + 'b) \<Rightarrow> exn + 'b" where
  "bind_exn x f = (case x of Inl e \<Rightarrow> Inl e | Inr v \<Rightarrow> f v)"

section \<open>Dataframes\<close>

text \<open>
  A pandas dataframe as far as the two components look at it: its index, which is a
  \<open>DatetimeIndex\<close> with its name and its timestamps or some other index, the column
  labels, and the rows (one cell per column).
\<close>

datatype index_kind = DatetimeIndex string "pyval list" | OtherIndex

record dataframe =
  df_index :: index_kind
  df_columns :: "string list"
  df_rows :: "pyval list list"

fun is_datetime_index :: "index_kind \<Rightarrow> bool" where
  "is_datetime_index (DatetimeIndex n ts) = True"
| "is_datetime_index OtherIndex = False"

datatype pd_object = Series string index_kind "pyval list" | Frame dataframe

text \<open>\<open>Series.to_frame()\<close>: one column, labelled with the series' name.\<close>

fun to_frame :: "pd_object \<Rightarrow> dataframe" where
  "to_frame (Series n ix vs) = \<lparr>df_index = ix, df_columns = [n], df_rows = map (\<lambda>v. [v]) vs\<rparr>"
| "to_frame (Frame df) = df"

section \<open>The Backend Adapter (integration\_datanode.py)\<close>

subsection \<open>Statements, responses and the connector\<close>

datatype response_type = TABLE | OK | ERROR

record response =
  resp_type :: response_type
  error_message :: "string option"
  data_frame :: "pd_object option"

datatype sa_type = Integer | Float | Text

type_synonym sql_identifier = "string list"

datatype statement =
    DropTables "sql_identifier list" bool
  | CreateTable sql_identifier "(string \<times> sa_type) list" bool
  | Insert sql_identifier "sql_identifier list" "pyval list list"
  | OtherStatement string

text \<open>
  \<open>IntegrationDataNode\<close>: the two names set by \<open>__init__\<close> and the connector
  \<open>integration_handler\<close>. The connector talks to a backend that has a state of its
  own (\<open>'db\<close>), so each of its calls takes that state and returns the next one
  together with a response or the exception it raised. The latency observation that
  \<open>_query\<close> and \<open>_native_query\<close> hand to the metrics registry after the connector
  has returned is wall-clock time and is left out.
\<close>

record 'db integration_data_node =
  integration_name :: string
  ds_type :: string
  handler_query :: "'db \<Rightarrow> statement \<Rightarrow> (exn + response) \<times> 'db"
  handler_native_query :: "'db \<Rightarrow> string option \<Rightarrow> (exn + response) \<times> 'db"

text \<open>\<open>has_table\<close> and \<open>get_table_columns\<close> (lines 50 to 54).\<close>

definition has_table :: "'db integration_data_node \<Rightarrow> string \<Rightarrow> bool" where
  "has_table node tableName = True"

definition get_table_columns :: "'db integration_data_node \<Rightarrow> string \<Rightarrow> string list" where
  "get_table_columns node tableName = []"

text \<open>\<open>_query\<close> and \<open>_native_query\<close> (lines 151 to 167).\<close>

definition node_query ::
  "'db integration_data_node \<Rightarrow> 'db \<Rightarrow> statement \<Rightarrow> (exn + response) \<times> 'db" where
  "node_query node db q = handler_query node db q"

definition node_native_query ::
  "'db integration_data_node \<Rightarrow> 'db \<Rightarrow> string option \<Rightarrow> (exn + response) \<times> 'db" where
  "node_native_query node db native_query = handler_native_query node db native_query"

subsection \<open>query (lines 169 to 214)\<close>

text \<open>
  The pandas calls of the \<open>TABLE\<close> branch are parameters: the two clean-up passes,
  each of which may raise (the source logs that and goes on with the frame it had), and
  the \<open>dtypes\<close> of the frame.
\<close>

record pandas_ops =
  df_replace_nan :: "dataframe \<Rightarrow> exn + dataframe"
  df_where_notnull :: "dataframe \<Rightarrow> exn + dataframe"
  df_dtypes :: "dataframe \<Rightarrow> (string \<times> string) list"

definition wrap_connector_error :: "'db integration_data_node \<Rightarrow> string \<Rightarrow> string" where
  "wrap_connector_error node msg = ''['' @ ds_type node @ ''/'' @ integration_name node @ '']: '' @ msg"

definition table_result ::
  "pandas_ops \<Rightarrow> pd_object option \<Rightarrow> exn + (pyval list list \<times> (string \<times> string) list)" where
  "table_result pd obj =
     (case obj of
        None \<Rightarrow> Inl (Exn AttributeError
                  (CHR 0x27 # ''NoneType'' @ [CHR 0x27] @ '' object has no attribute '' @ [CHR 0x27] @ ''dtypes'' @ [CHR 0x27]))
      | Some o1 \<Rightarrow>
          (let df = to_frame o1;
               df = (case df_replace_nan pd df of Inl e \<Rightarrow> df | Inr df' \<Rightarrow> df');
               df = (case df_where_notnull pd df of Inl e \<Rightarrow> df | Inr df' \<Rightarrow> df')
           in Inr (df_rows df, df_dtypes pd df)))"

text \<open>Lines 172 to 176: a structured statement if there is one, the raw text otherwise.\<close>

definition dispatch ::
  "'db integration_data_node \<Rightarrow> 'db \<Rightarrow> statement option \<Rightarrow> string option \<Rightarrow> (exn + response) \<times> 'db" where
  "dispatch node db q native_query =
     (case q of Some s \<Rightarrow> node_query node db s
              | None \<Rightarrow> node_native_query node db native_query)"

definition query ::
  "pandas_ops \<Rightarrow> 'db integration_data_node \<Rightarrow> 'db \<Rightarrow> statement option \<Rightarrow> string option
     \<Rightarrow> (exn + (pyval list list \<times> (string \<times> string) list)) \<times> 'db" where
  "query pd node db q native_query =
     (case dispatch node db q native_query of
        (Inl (Exn cls m), db') \<Rightarrow>
          (let msg = strip m;
               msg = (if msg = [] then class_name cls else msg)
           in (Inl (Exn DBHandlerException (wrap_connector_error node msg)), db'))
      | (Inr result, db') \<Rightarrow>
          if resp_type result = ERROR
          then (Inl (Exn Exception
                  (''Error in '' @ integration_name node @ '': '' @ str_opt (error_message result))), db')
          else if resp_type result = OK then (Inr ([], []), db')
          else (table_result pd (data_frame result), db'))"

subsection \<open>create\_table (lines 65 to 149)\<close>

text \<open>
  A column of the result set carries its col_alias and its runtime type: a numpy dtype,
  for which pandas answers \<open>is_integer_dtype\<close> and \<open>is_numeric_dtype\<close>, or something
  else. A record of \<open>get_records()\<close> is a dictionary from col_alias to cell.
\<close>

datatype runtime_type = NpDtype (is_integer_dtype: bool) (is_numeric_dtype: bool) | NotDtype

record column =
  col_alias :: string
  col_type :: runtime_type

record result_set =
  rs_columns :: "column list"
  rs_records :: "(string \<times> pyval) list list"

text \<open>Lines 72 to 87: the inferred storage type of a column.\<close>

fun column_type :: "runtime_type \<Rightarrow> sa_type" where
  "column_type NotDtype = Text"
| "column_type (NpDtype integer_dtype numeric_dtype) =
     (if integer_dtype then Integer else if numeric_dtype then Float else Text)"

definition table_columns :: "column list \<Rightarrow> (string \<times> sa_type) list" where
  "table_columns cols = map (\<lambda>col. (col_alias col, column_type (col_type col))) cols"

text \<open>
  \<open>table_columns_meta\<close> is a dictionary filled in column order, so for an col_alias that
  occurs twice the later column's type is the one kept.
\<close>

definition table_columns_meta :: "column list \<Rightarrow> string \<Rightarrow> sa_type option" where
  "table_columns_meta cols = map_of (rev (table_columns cols))"

text \<open>
  The conversions \<open>int(v)\<close>, \<open>float(v)\<close> and \<open>str(v)\<close>. What they do on a value
  that already has the target class, on booleans and on \<open>None\<close> is written out;
  parsing text, rounding an integer to a float and printing a float belong to the
  interpreter and are parameters.
\<close>

record builtins =
  int_of_str :: "string \<Rightarrow> exn + int"
  float_of_str :: "string \<Rightarrow> exn + pyfloat"
  float_of_int :: "int \<Rightarrow> exn + pyfloat"
  str_of_int :: "int \<Rightarrow> string"
  str_of_float :: "pyfloat \<Rightarrow> string"

fun py_int :: "builtins \<Rightarrow> pyval \<Rightarrow> exn + pyval" where
  "py_int B (PInt i) = Inr (PInt i)"
| "py_int B (PBool b) = Inr (PInt (if b then 1 else 0))"
| "py_int B (PFloat (Finite r)) = Inr (PInt (if 0 \<le> r then \<lfloor>r\<rfloor> else \<lceil>r\<rceil>))"
| "py_int B (PFloat (Infinity s)) = Inl (Exn OverflowError ''cannot convert float infinity to integer'')"
| "py_int B (PFloat NaN) = Inl (Exn ValueError ''cannot convert float NaN to integer'')"
| "py_int B (PStr s) = (case int_of_str B s of Inl e \<Rightarrow> Inl e | Inr i \<Rightarrow> Inr (PInt i))"
| "py_int B PNone = Inl (Exn TypeError ''int() argument must be a string, a bytes-like object or a real number'')"

fun py_float :: "builtins \<Rightarrow> pyval \<Rightarrow> exn + pyval" where
  "py_float B (PFloat f) = Inr (PFloat f)"
| "py_float B (PInt i) = (case float_of_int B i of Inl e \<Rightarrow> Inl e | Inr f \<Rightarrow> Inr (PFloat f))"
| "py_float B (PBool b) = Inr (PFloat (Finite (if b then 1 else 0)))"
| "py_float B (PStr s) = (case float_of_str B s of Inl e \<Rightarrow> Inl e | Inr f \<Rightarrow> Inr (PFloat f))"
| "py_float B PNone = Inl (Exn TypeError ''float() argument must be a string or a real number'')"

fun py_str :: "builtins \<Rightarrow> pyval \<Rightarrow> exn + pyval" where
  "py_str B (PStr s) = Inr (PStr s)"
| "py_str B (PInt i) = Inr (PStr (str_of_int B i))"
| "py_str B (PBool b) = Inr (PStr (if b then ''True'' else ''False''))"
| "py_str B (PFloat f) = Inr (PStr (str_of_float B f))"
| "py_str B PNone = Inr (PStr ''None'')"

text \<open>Lines 119 to 123: the Python type chosen for a storage type.\<close>

fun python_type :: "builtins \<Rightarrow> sa_type \<Rightarrow> pyval \<Rightarrow> exn + pyval" where
  "python_type B Integer = py_int B"
| "python_type B Float = py_float B"
| "python_type B Text = py_str B"

text \<open>
  Lines 125 to 128: \<open>None\<close> is left alone, and an exception of the conversion is
  swallowed, which keeps the value as it was.
\<close>

definition coerce_value :: "builtins \<Rightarrow> sa_type \<Rightarrow> pyval \<Rightarrow> pyval" where
  "coerce_value B ct v =
     (if v \<noteq> PNone then (case python_type B ct v of Inl e \<Rightarrow> v | Inr v' \<Rightarrow> v') else v)"

text \<open>
  Lines 113 to 130. \<open>rec[col.col_alias]\<close> raises \<open>KeyError\<close> for an col_alias the record
  does not have; that exception is outside the \<open>try\<close> and leaves \<open>create_table\<close>.
\<close>

definition key_error :: "string \<Rightarrow> exn" where
  "key_error k = Exn KeyError (CHR 0x27 # k @ [CHR 0x27])"

fun format_record ::
  "builtins \<Rightarrow> (string \<Rightarrow> sa_type option) \<Rightarrow> column list \<Rightarrow> (string \<times> pyval) list \<Rightarrow> exn + pyval list" where
  "format_record B meta [] r = Inr []"
| "format_record B meta (col # cols) r =
     (case map_of r (col_alias col) of
        None \<Rightarrow> Inl (key_error (col_alias col))
      | Some v \<Rightarrow>
          (case meta (col_alias col) of
             None \<Rightarrow> Inl (key_error (col_alias col))
           | Some ct \<Rightarrow>
               (case format_record B meta cols r of
                  Inl e \<Rightarrow> Inl e
                | Inr new_row \<Rightarrow> Inr (coerce_value B ct v # new_row))))"

fun formatted_data ::
  "builtins \<Rightarrow> column list \<Rightarrow> (string \<times> pyval) list list \<Rightarrow> exn + pyval list list" where
  "formatted_data B cols [] = Inr []"
| "formatted_data B cols (r # rs) =
     (case format_record B (table_columns_meta cols) cols r of
        Inl e \<Rightarrow> Inl e
      | Inr new_row \<Rightarrow>
          (case formatted_data B cols rs of
             Inl e \<Rightarrow> Inl e
           | Inr rows \<Rightarrow> Inr (new_row # rows)))"

text \<open>
  The result of a dispatched statement as \<open>create_table\<close> and \<open>drop_table\<close> read
  it: an \<open>ERROR\<close> response raises a plain exception with the connector's message.
\<close>

definition raise_on_error :: "response \<Rightarrow> exn + unit" where
  "raise_on_error result =
     (if resp_type result = ERROR then Inl (Exn Exception (str_opt (error_message result)))
      else Inr ())"

definition insert_phase ::
  "builtins \<Rightarrow> 'db integration_data_node \<Rightarrow> 'db \<Rightarrow> sql_identifier \<Rightarrow> result_set \<Rightarrow> (exn + unit) \<times> 'db" where
  "insert_phase B node db table_name rs =
     (let insert_columns = map (\<lambda>x. [col_alias x]) (rs_columns rs) in
      case formatted_data B (rs_columns rs) (rs_records rs) of
        Inl e \<Rightarrow> (Inl e, db)
      | Inr fd \<Rightarrow>
          if length fd = 0 then (Inr (), db)
          else (case node_query node db (Insert table_name insert_columns fd) of
                  (Inl (Exn cls m), db') \<Rightarrow>
                    (Inl (Exn DBHandlerException (wrap_connector_error node m)), db')
                | (Inr result, db') \<Rightarrow> (raise_on_error result, db')))"

definition create_phase ::
  "builtins \<Rightarrow> 'db integration_data_node \<Rightarrow> 'db \<Rightarrow> sql_identifier \<Rightarrow> result_set \<Rightarrow> bool \<Rightarrow> (exn + unit) \<times> 'db" where
  "create_phase B node db table_name rs is_create =
     (if is_create
      then (case node_query node db (CreateTable table_name (table_columns (rs_columns rs)) True) of
              (Inl e, db') \<Rightarrow> (Inl e, db')
            | (Inr result, db') \<Rightarrow>
                (case raise_on_error result of
                   Inl e \<Rightarrow> (Inl e, db')
                 | Inr u \<Rightarrow> insert_phase B node db' table_name rs))
      else insert_phase B node db table_name rs)"

definition create_table ::
  "builtins \<Rightarrow> 'db integration_data_node \<Rightarrow> 'db \<Rightarrow> sql_identifier \<Rightarrow> result_set \<Rightarrow> bool \<Rightarrow> bool
     \<Rightarrow> (exn + unit) \<times> 'db" where
  "create_table B node db table_name rs is_replace is_create =
     (if is_replace
      then (case node_query node db (DropTables [table_name] True) of
              (Inl e, db') \<Rightarrow> (Inl e, db')
            | (Inr result, db') \<Rightarrow>
                (case raise_on_error result of
                   Inl e \<Rightarrow> (Inl e, db')
                 | Inr u \<Rightarrow> create_phase B node db' table_name rs True))
      else create_phase B node db table_name rs is_create)"

definition drop_table ::
  "'db integration_data_node \<Rightarrow> 'db \<Rightarrow> sql_identifier \<Rightarrow> bool \<Rightarrow> (exn + unit) \<times> 'db" where
  "drop_table node db name if_exists =
     (case node_query node db (DropTables [name] if_exists) of
        (Inl e, db') \<Rightarrow> (Inl e, db')
      | (Inr result, db') \<Rightarrow> (raise_on_error result, db'))"


text \<open>
  The cell that \<open>format_record\<close> puts into a row for the column with alias \<open>a\<close>,
  when the record has that key.
\<close>

definition coerced_cell ::
  "builtins \<Rightarrow> (string \<Rightarrow> sa_type option) \<Rightarrow> (string \<times> pyval) list \<Rightarrow> string \<Rightarrow> pyval" where
  "coerced_cell B meta r a = coerce_value B (the (meta a)) (the (map_of r a))"

subsection \<open>A connector to run the adapter on\<close>

text \<open>
  A small connector for concrete runs. Its backend state counts the statements it has
  accepted. It loses the connection (an exception whose text is the blank statement
  itself) on a statement of blanks only, reports \<open>ERROR\<close> for any other statement it
  cannot read, and answers \<open>OK\<close> to the three statements the adapter builds.
\<close>

definition demo_handler_query :: "nat \<Rightarrow> statement \<Rightarrow> (exn + response) \<times> nat" where
  "demo_handler_query n s =
     (case s of
        OtherStatement t \<Rightarrow>
          if strip t = [] then (Inl (Exn (OtherException ''ConnectionError'') t), n)
          else (Inr \<lparr>resp_type = ERROR, error_message = Some (''syntax error in '' @ t),
                     data_frame = None\<rparr>, n)
      | _ \<Rightarrow> (Inr \<lparr>resp_type = OK, error_message = None, data_frame = None\<rparr>, Suc n))"

definition demo_handler_native_query :: "nat \<Rightarrow> string option \<Rightarrow> (exn + response) \<times> nat" where
  "demo_handler_native_query n t =
     (case t of
        None \<Rightarrow> (Inl (Exn TypeError ''expected a statement''), n)
      | Some txt \<Rightarrow> demo_handler_query n (OtherStatement txt))"

definition demo_node :: "nat integration_data_node" where
  "demo_node = \<lparr>integration_name = ''mydb'', ds_type = ''postgres'',
                 handler_query = demo_handler_query,
                 handler_native_query = demo_handler_native_query\<rparr>"

definition demo_pandas :: pandas_ops where
  "demo_pandas = \<lparr>df_replace_nan = Inr, df_where_notnull = Inr,
                   df_dtypes = (\<lambda>df. map (\<lambda>c. (c, ''object'')) (df_columns df))\<rparr>"

definition demo_builtins :: builtins where
  "demo_builtins = \<lparr>int_of_str = (\<lambda>s. Inl (Exn ValueError (''invalid literal for int() with base 10: '' @ s))),
                     float_of_str = (\<lambda>s. Inl (Exn ValueError (''could not convert string to float: '' @ s))),
                     float_of_int = (\<lambda>i. Inr (Finite (of_int i))),
                     str_of_int = (\<lambda>i. if i = 7 then ''7'' else ''?''),
                     str_of_float = (\<lambda>f. ''?'')\<rparr>"

section \<open>The API-backed table translator (openbb\_tables.py)\<close>

subsection \<open>Strings and dictionaries\<close>

text \<open>
  A Python dictionary keeps its keys in insertion order: it is a list of pairs with
  distinct keys. \<open>d[k] = v\<close> replaces the value of a key that is there and appends a
  new key otherwise; \<open>k in d\<close> is \<open>has_key\<close>; \<open>d.get(k, default)\<close> is
  \<open>dict_get\<close>; \<open>d[k]\<close> is \<open>map_of d k\<close>, with \<open>None\<close> standing for
  \<open>KeyError\<close>.
\<close>

fun dict_set :: "('k \<times> 'v) list \<Rightarrow> 'k \<Rightarrow> 'v \<Rightarrow> ('k \<times> 'v) list" where
  "dict_set [] k v = [(k, v)]"
| "dict_set ((k', v') # d) k v = (if k' = k then (k, v) # d else (k', v') # dict_set d k v)"

definition has_key :: "('k \<times> 'v) list \<Rightarrow> 'k \<Rightarrow> bool" where
  "has_key d k = (k \<in> set (map fst d))"

definition dict_get :: "('k \<times> 'v) list \<Rightarrow> 'k \<Rightarrow> 'v \<Rightarrow> 'v" where
  "dict_get d k dflt = (case map_of d k of None \<Rightarrow> dflt | Some v \<Rightarrow> v)"

text \<open>
  \<open>sep.join(xs)\<close>, \<open>pat in s\<close>, \<open>s.replace(old, new)\<close> and \<open>s.lower()\<close>.
  Among the code points below 256, \<open>str.lower\<close> moves the capitals \<open>A\<close> to
  \<open>Z\<close> (65 to 90) and the Latin-1 capitals 192 to 222, the multiplication sign 215
  apart, up by 32 and leaves the others.
\<close>

fun join :: "string \<Rightarrow> string list \<Rightarrow> string" where
  "join sep [] = []"
| "join sep [x] = x"
| "join sep (x # y # ys) = x @ sep @ join sep (y # ys)"

fun str_in :: "string \<Rightarrow> string \<Rightarrow> bool" where
  "str_in pat [] = (pat = [])"
| "str_in pat (c # cs) = (prefix pat (c # cs) \<or> str_in pat cs)"

function str_replace :: "string \<Rightarrow> string \<Rightarrow> string \<Rightarrow> string" where
  "str_replace old new [] = []"
| "str_replace old new (c # cs) =
     (if old \<noteq> [] \<and> prefix old (c # cs)
      then new @ str_replace old new (drop (length old) (c # cs))
      else c # str_replace old new cs)"
  by pat_completeness auto
termination
  by (relation "measure (\<lambda>(old, new, s). length s)") auto

definition lower_char :: "char \<Rightarrow> char" where
  "lower_char c =
     (let n = (of_char c :: nat)
      in if (65 \<le> n \<and> n \<le> 90) \<or> (192 \<le> n \<and> n \<le> 222 \<and> n \<noteq> 215) then char_of (n + 32) else c)"

definition lower :: "string \<Rightarrow> string" where
  "lower s = map lower_char s"

text \<open>Truth value of a Python value, as \<open>not x\<close> reads it.\<close>

fun truthy :: "pyval \<Rightarrow> bool" where
  "truthy PNone = False"
| "truthy (PBool b) = b"
| "truthy (PInt i) = (i \<noteq> 0)"
| "truthy (PFloat f) = (f \<noteq> Finite 0)"
| "truthy (PStr s) = (s \<noteq> [])"

subsection \<open>Queries, metadata and collaborators\<close>

text \<open>
  A condition is a triple \<open>[op, arg1, arg2]\<close> as \<open>extract_comparison_conditions\<close>
  returns it; the left operand is \<open>None\<close> in the \<open>or\<close> triple. The extractor and
  the parser's node classes are not part of the component: a \<open>Select\<close> node is kept as
  the fields that \<open>select\<close> reads, with the triples extracted from \<open>query.where\<close> in
  place of the filter tree. Of the target nodes only \<open>Identifier\<close> has \<open>parts\<close>;
  \<open>OtherTarget n\<close> is a node of any other class \<open>n\<close> (an operation, a window
  function, a constant).
\<close>

type_synonym condition = "string \<times> string option \<times> pyval"

datatype target = Star | Identifier "string list" | Function string "target list" | OtherTarget string

record select_query =
  targets :: "target list"
  from_table :: "string list"
  where_conditions :: "condition list"
  order_by :: "(string \<times> string) list"
  limit :: "int option"

text \<open>
  The arguments of \<open>create_table_class\<close>. A parameter field answers
  \<open>is_required()\<close> and has an annotation that is a class or a \<open>Union\<close> of
  classes, known here by their \<open>__name__\<close>, and an optional description. The
  annotation of a response field is compared with the string \<open>datetime\<close>, so it may
  be a string. \<open>obb_function\<close> is the remote call followed by \<open>to_df()\<close>, which
  may give \<open>None\<close>.
\<close>

datatype annotation = TypeName string | UnionOf "string list"

datatype response_annotation = AnnStr string | AnnType annotation

record field_info =
  required :: bool
  annotation :: annotation
  description :: "string option"

record table_class =
  params_fields :: "(string \<times> field_info) list"
  response_fields :: "(string \<times> response_annotation) list"
  obb_function :: "(string \<times> pyval) list \<Rightarrow> exn + dataframe option"
  func_docs :: string
  provider :: "string option"

text \<open>Lines 25 and 26.\<close>

definition mandatory_fields :: "table_class \<Rightarrow> string list" where
  "mandatory_fields tc = map fst (filter (\<lambda>kf. required (snd kf)) (params_fields tc))"

definition response_columns :: "table_class \<Rightarrow> string list" where
  "response_columns tc = map fst (response_fields tc)"

text \<open>
  The functions \<open>select\<close> imports: date parsing and arithmetic (\<open>parse_local_date\<close>,
  \<open>pd.Timedelta\<close>, \<open>-\<close>, \<open>+\<close>, \<open>strftime('%Y-%m-%d')\<close>), the pandas and
  \<open>sql_utils\<close> helpers, the rendering of a query as text and the DuckDB engine. Each
  may raise where the original may. \<open>'dt\<close> is the type of datetimes, \<open>'td\<close> that
  of time deltas.
\<close>

record ('dt, 'td) library =
  parse_local_date :: "pyval \<Rightarrow> exn + 'dt"
  Timedelta :: "pyval \<Rightarrow> exn + 'td"
  dt_minus :: "'dt \<Rightarrow> 'td \<Rightarrow> exn + 'dt"
  dt_plus :: "'dt \<Rightarrow> 'td \<Rightarrow> exn + 'dt"
  strftime_ymd :: "'dt \<Rightarrow> string"
  reset_index :: "dataframe \<Rightarrow> exn + dataframe"
  sort_dataframe :: "dataframe \<Rightarrow> (string \<times> string) list \<Rightarrow> exn + dataframe"
  filter_dataframe :: "dataframe \<Rightarrow> condition list \<Rightarrow> exn + dataframe option"
  project_dataframe :: "dataframe \<Rightarrow> target list \<Rightarrow> string list \<Rightarrow> exn + dataframe"
  to_string :: "select_query \<Rightarrow> string"
  duckdb_query :: "string \<Rightarrow> dataframe \<Rightarrow> exn + dataframe"

text \<open>
  What a call of \<open>select\<close> does to the outside, in order: the remote call with its
  keyword parameters, the local filtering with the frame and the filters it is given,
  and the hand-over to \<open>_select_dataframe\<close>. A call ends with the frame returned or
  the exception raised, and with the list \<open>response_columns\<close>, which \<open>get_columns\<close>
  hands out and line 171 extends in place: \<open>select\<close> takes the content of that
  list at the start of the call as its argument \<open>columns\<close>.
\<close>

datatype event =
    RemoteCall "(string \<times> pyval) list"
  | LocalFilter dataframe "condition list"
  | Fallback select_query dataframe

record select_outcome =
  returned :: "exn + dataframe"
  calls :: "event list"
  columns_after :: "string list"

subsection \<open>\_get\_params\_from\_conditions (lines 29 to 45)\<close>

fun params_from :: "(string option \<times> pyval) list \<Rightarrow> condition list \<Rightarrow> (string option \<times> pyval) list" where
  "params_from params [] = params"
| "params_from params ((op, arg1, arg2) # conditions) =
     params_from (if op = ''='' then dict_set params arg1 arg2 else params) conditions"

definition get_params_from_conditions :: "condition list \<Rightarrow> (string option \<times> pyval) list" where
  "get_params_from_conditions conditions = params_from [] conditions"

subsection \<open>The loop over the conditions (lines 72 to 115)\<close>

record scan_state =
  params :: "(string \<times> pyval) list"
  filters :: "condition list"
  mandatory_args_set :: "(string \<times> bool) list"
  columns_to_add :: "(string \<times> pyval) list"

definition initial_state :: "table_class \<Rightarrow> scan_state" where
  "initial_state tc =
     \<lparr>params = (case provider tc of None \<Rightarrow> [] | Some p \<Rightarrow> [(''provider'', PStr p)]),
      filters = [],
      mandatory_args_set = map (\<lambda>key. (key, False)) (mandatory_fields tc),
      columns_to_add = []\<rparr>"

text \<open>
  Lines 91 to 108: the date is parsed whatever the operator is; the interval is read
  only by the three operators that shift. In the \<open>=\<close> branch the variable \<open>date\<close>
  is assigned the shifted date before the second shift is applied to it.
\<close>

definition time_range_params ::
  "('dt, 'td) library \<Rightarrow> pyval \<Rightarrow> string \<Rightarrow> string \<Rightarrow> pyval \<Rightarrow> (string \<times> pyval) list
     \<Rightarrow> exn + (string \<times> pyval) list" where
  "time_range_params lib interval op arg1 arg2 kwargs =
     bind_exn (parse_local_date lib arg2) (\<lambda>date.
       if op = ''>'' then Inr (dict_set kwargs (''start_'' @ arg1) (PStr (strftime_ymd lib date)))
       else if op = ''<'' then Inr (dict_set kwargs (''end_'' @ arg1) (PStr (strftime_ymd lib date)))
       else if op = ''>='' then
         bind_exn (Timedelta lib interval) (\<lambda>td.
         bind_exn (dt_minus lib date td) (\<lambda>date.
           Inr (dict_set kwargs (''start_'' @ arg1) (PStr (strftime_ymd lib date)))))
       else if op = ''<='' then
         bind_exn (Timedelta lib interval) (\<lambda>td.
         bind_exn (dt_plus lib date td) (\<lambda>date.
           Inr (dict_set kwargs (''end_'' @ arg1) (PStr (strftime_ymd lib date)))))
       else if op = ''='' then
         bind_exn (Timedelta lib interval) (\<lambda>td.
         bind_exn (dt_minus lib date td) (\<lambda>date.
           let kwargs = dict_set kwargs (''start_'' @ arg1) (PStr (strftime_ymd lib date)) in
           bind_exn (Timedelta lib interval) (\<lambda>td.
           bind_exn (dt_plus lib date td) (\<lambda>date.
             Inr (dict_set kwargs (''end_'' @ arg1) (PStr (strftime_ymd lib date)))))))
       else Inr kwargs)"

definition concat_none_error :: exn where
  "concat_none_error =
     Exn TypeError (''can only concatenate str (not '' @ [CHR 0x22] @ ''NoneType'' @ [CHR 0x22] @ '') to str'')"

text \<open>One pass of the loop body, lines 82 to 115, for the condition \<open>(op, arg1, arg2)\<close>.\<close>

definition select_condition ::
  "('dt, 'td) library \<Rightarrow> table_class \<Rightarrow> string list \<Rightarrow> (string option \<times> pyval) list \<Rightarrow> pyval
     \<Rightarrow> scan_state \<Rightarrow> condition \<Rightarrow> exn + scan_state" where
  "select_condition lib tc columns arg_params strict_filter st c =
     (case c of (op, arg1, arg2) \<Rightarrow>
        if op = ''or'' then Inl (Exn NotImplementedError ''OR is not supported'')
        else
          (case arg1 of
             None \<Rightarrow> Inl concat_none_error
           | Some a \<Rightarrow>
               (let st = (if a \<in> set (mandatory_fields tc)
                          then st\<lparr>mandatory_args_set := dict_set (mandatory_args_set st) a True\<rparr>
                          else st)
                in bind_exn
                     (if has_key (params_fields tc) (''start_'' @ a) \<and> a \<in> set columns \<and> arg2 \<noteq> PNone
                      then (case map_of (response_fields tc) a of
                              None \<Rightarrow> Inl (key_error a)
                            | Some ann \<Rightarrow>
                                if ann = AnnStr ''datetime''
                                then bind_exn
                                       (time_range_params lib
                                          (dict_get arg_params (Some ''interval'') (PStr ''1d''))
                                          op a arg2 (params st))
                                       (\<lambda>p. Inr (st\<lparr>params := p\<rparr>))
                                else Inr st)
                      else if has_key (params_fields tc) a \<or> \<not> truthy strict_filter
                      then (if op = ''=''
                            then Inr (st\<lparr>params := dict_set (params st) a arg2,
                                         columns_to_add := dict_set (columns_to_add st) a arg2\<rparr>)
                            else Inr st)
                      else Inr st)
                     (\<lambda>st. Inr (st\<lparr>filters := filters st @ [(op, arg1, arg2)]\<rparr>)))))"

fun scan_conditions ::
  "('dt, 'td) library \<Rightarrow> table_class \<Rightarrow> string list \<Rightarrow> (string option \<times> pyval) list \<Rightarrow> pyval
     \<Rightarrow> scan_state \<Rightarrow> condition list \<Rightarrow> exn + scan_state" where
  "scan_conditions lib tc columns arg_params strict_filter st [] = Inr st"
| "scan_conditions lib tc columns arg_params strict_filter st (c # cs) =
     (case select_condition lib tc columns arg_params strict_filter st c of
        Inl e \<Rightarrow> Inl e
      | Inr st' \<Rightarrow> scan_conditions lib tc columns arg_params strict_filter st' cs)"

subsection \<open>The generated parameter reference\<close>

fun annotation_text :: "annotation \<Rightarrow> string" where
  "annotation_text (UnionOf names) = ''Union['' @ join '', '' names @ '']''"
| "annotation_text (TypeName n) = n"

definition param_doc :: "string \<times> field_info \<Rightarrow> string" where
  "param_doc pf =
     ''\<newline>  * '' @ fst pf @ (if required (snd pf) then [] else '' (optional)'') @ '': ''
       @ annotation_text (annotation (snd pf)) @ ''\<newline>'' @ str_opt (description (snd pf))"

definition param_docs :: "table_class \<Rightarrow> string" where
  "param_docs tc = concat (map param_doc (params_fields tc))"

text \<open>The text built in each of the three handlers (lines 198 to 207 and its copies).\<close>

definition docstring :: "table_class \<Rightarrow> string" where
  "docstring tc =
     ''Docstring:'' @ param_docs tc @ ''\<newline>\<newline>For more information check '' @ func_docs tc"

text \<open>Lines 118 to 131.\<close>

definition missing_args :: "scan_state \<Rightarrow> string list" where
  "missing_args st = map fst (filter (\<lambda>kv. snd kv = False) (mandatory_args_set st))"

definition missing_args_text :: "table_class \<Rightarrow> scan_state \<Rightarrow> string" where
  "missing_args_text tc st =
     ''You must specify the following arguments in the WHERE statement: ''
       @ join '', '' (missing_args st) @ ''\<newline>''
       @ ''\<newline>Docstring:'' @ param_docs tc
       @ ''\<newline>\<newline>For more information check '' @ func_docs tc"

subsection \<open>The handlers (lines 194 to 251)\<close>

definition table_not_found_help :: "table_class \<Rightarrow> string" where
  "table_not_found_help tc =
     ''\<newline>\<newline>Check if the method exists here: '' @ func_docs tc
       @ ''.\<newline>\<newline>  -  If it doesn't you may need to look for the parent module to check whether there's a typo in the naming.\<newline>- If it does you may need to install a new extension to the OpenBB Platform, and you can see what is available at https://my.openbb.co/app/platform/extensions.''"

definition missing_credential_help :: string where
  "missing_credential_help =
     ''\<newline>\<newline>Go to https://my.openbb.co/app/platform/api-keys to set this API key, for free.''"

definition with_docstring :: "table_class \<Rightarrow> string \<Rightarrow> string" where
  "with_docstring tc msg = msg @ ''\<newline>\<newline>'' @ docstring tc @ ''.''"

fun reraise :: "table_class \<Rightarrow> exn \<Rightarrow> exn" where
  "reraise tc (Exn cls msg) =
     (if cls = AttributeError then Exn Exception (with_docstring tc msg)
      else if cls = ValidationError then Exn Exception (with_docstring tc msg)
      else if str_in ''Table not found'' msg then Exn Exception (msg @ table_not_found_help tc)
      else if str_in ''Missing credential'' msg then Exn Exception (msg @ missing_credential_help)
      else Exn Exception (with_docstring tc msg))"

subsection \<open>\_select\_dataframe (lines 47 to 59)\<close>

definition index_error :: exn where
  "index_error = Exn IndexError ''list index out of range''"

definition select_dataframe :: "('dt, 'td) library \<Rightarrow> select_query \<Rightarrow> dataframe \<Rightarrow> exn + dataframe" where
  "select_dataframe lib qry df =
     (if from_table qry = [] then Inl index_error
      else (let openbb_table = last (from_table qry);
                query_str = to_string lib (qry\<lparr>from_table := [''df'']\<rparr>);
                query_str = str_replace (openbb_table @ ''.'') [] query_str;
                query_str = str_replace [CHR 0x60] [] query_str
            in duckdb_query lib query_str df))"

subsection \<open>Post-processing of the remote result (lines 144 to 167)\<close>

text \<open>
  \<open>DataFrame.head(n)\<close> keeps the first \<open>n\<close> rows, or all but the last \<open>-n\<close>
  for a negative \<open>n\<close>; what it returns is a frame. \<open>result[key] = v\<close> overwrites
  the column \<open>key\<close> with the scalar, or appends it as a new column.
\<close>

definition df_head :: "int \<Rightarrow> dataframe \<Rightarrow> dataframe" where
  "df_head n df =
     df\<lparr>df_rows := (if 0 \<le> n then take (nat n) (df_rows df)
                      else take (length (df_rows df) - nat (- n)) (df_rows df))\<rparr>"

definition set_column :: "dataframe \<Rightarrow> string \<Rightarrow> pyval \<Rightarrow> dataframe" where
  "set_column df key v =
     (if key \<in> set (df_columns df)
      then df\<lparr>df_rows := map (\<lambda>r. r[length (takeWhile (\<lambda>c. c \<noteq> key) (df_columns df)) := v]) (df_rows df)\<rparr>
      else df\<lparr>df_columns := df_columns df @ [key], df_rows := map (\<lambda>r. r @ [v]) (df_rows df)\<rparr>)"

text \<open>Lines 160 and 161: every staged key gets the value that \<open>params\<close> holds for it.\<close>

fun add_columns :: "(string \<times> pyval) list \<Rightarrow> string list \<Rightarrow> dataframe \<Rightarrow> exn + dataframe" where
  "add_columns kwargs [] df = Inr df"
| "add_columns kwargs (key # keys) df =
     (case map_of kwargs key of
        None \<Rightarrow> Inl (key_error key)
      | Some v \<Rightarrow> add_columns kwargs keys (set_column df key v))"

text \<open>The test \<open>if result is None: raise Exception(...)\<close> of lines 144, 157 and 166.\<close>

definition no_data_error :: "table_class \<Rightarrow> exn" where
  "no_data_error tc = Exn Exception (''For more information check '' @ func_docs tc @ ''.'')"

definition none_check :: "table_class \<Rightarrow> dataframe option \<Rightarrow> exn + dataframe" where
  "none_check tc r = (case r of None \<Rightarrow> Inl (no_data_error tc) | Some df \<Rightarrow> Inr df)"

definition post_process ::
  "('dt, 'td) library \<Rightarrow> table_class \<Rightarrow> select_query \<Rightarrow> (string \<times> pyval) list \<Rightarrow> string list
     \<Rightarrow> dataframe \<Rightarrow> exn + dataframe" where
  "post_process lib tc qry kwargs keys result =
     bind_exn (if is_datetime_index (df_index result) then reset_index lib result else Inr result) (\<lambda>result.
     bind_exn (if order_by qry \<noteq> [] then sort_dataframe lib result (order_by qry) else Inr result) (\<lambda>result.
     bind_exn (case limit qry of
                 None \<Rightarrow> Inr result
               | Some n \<Rightarrow> none_check tc (Some (df_head n result))) (\<lambda>result.
     add_columns kwargs keys result)))"

subsection \<open>Validation of the targets and projection (lines 169 to 192)\<close>

definition unknown_column :: "string \<Rightarrow> exn" where
  "unknown_column t =
     Exn ValueError (''Unknown column '' @ [CHR 0x27] @ t @ [CHR 0x27] @ '' in '' @ [CHR 0x27]
                      @ ''field list'' @ [CHR 0x27])"

fun target_class :: "target \<Rightarrow> string" where
  "target_class Star = ''Star''"
| "target_class (Identifier parts) = ''Identifier''"
| "target_class (Function f args) = ''Function''"
| "target_class (OtherTarget n) = n"

definition no_parts_error :: "target \<Rightarrow> exn" where
  "no_parts_error t =
     Exn AttributeError (CHR 0x27 # target_class t @ [CHR 0x27] @ '' object has no attribute ''
                          @ [CHR 0x27] @ ''parts'' @ [CHR 0x27])"

text \<open>\<open>x.parts[-1].lower()\<close> for a node \<open>x\<close>.\<close>

fun last_part_lower :: "target \<Rightarrow> exn + string" where
  "last_part_lower (Identifier parts) = (if parts = [] then Inl index_error else Inr (lower (last parts)))"
| "last_part_lower t = Inl (no_parts_error t)"

datatype validation = Validated | Defer_to_DuckDB

definition check_column :: "string list \<Rightarrow> exn + string \<Rightarrow> exn + validation \<Rightarrow> exn + validation" where
  "check_column columns t continue =
     (case t of
        Inl e \<Rightarrow> Inl e
      | Inr tgt \<Rightarrow> if tgt \<in> set columns then continue else Inl (unknown_column tgt))"

text \<open>
  The loop of lines 173 to 184. It ends with an exception, with every target checked,
  or at the first target that is neither a star, an identifier nor a function call.
\<close>

fun check_targets :: "string list \<Rightarrow> target list \<Rightarrow> exn + validation" where
  "check_targets columns [] = Inr Validated"
| "check_targets columns (Star # rest) = check_targets columns rest"
| "check_targets columns (Identifier parts # rest) =
     check_column columns (last_part_lower (Identifier parts)) (check_targets columns rest)"
| "check_targets columns (Function f args # rest) =
     check_column columns
       (case args of [] \<Rightarrow> Inl index_error | a # _ \<Rightarrow> last_part_lower a)
       (check_targets columns rest)"
| "check_targets columns (OtherTarget n # rest) = Inr Defer_to_DuckDB"

definition run_fallback ::
  "('dt, 'td) library \<Rightarrow> select_query \<Rightarrow> string list \<Rightarrow> dataframe \<Rightarrow> event list \<Rightarrow> select_outcome" where
  "run_fallback lib qry columns result evs =
     \<lparr>returned = select_dataframe lib qry result,
      calls = evs @ [Fallback qry result],
      columns_after = columns\<rparr>"

definition project_stage ::
  "('dt, 'td) library \<Rightarrow> select_query \<Rightarrow> string list \<Rightarrow> dataframe \<Rightarrow> event list \<Rightarrow> select_outcome" where
  "project_stage lib qry columns result evs =
     (case check_targets columns (targets qry) of
        Inl e \<Rightarrow> \<lparr>returned = Inl e, calls = evs, columns_after = columns\<rparr>
      | Inr Defer_to_DuckDB \<Rightarrow> run_fallback lib qry columns result evs
      | Inr Validated \<Rightarrow>
          (case project_dataframe lib result (targets qry) columns of
             Inr projected \<Rightarrow> \<lparr>returned = Inr projected, calls = evs, columns_after = columns\<rparr>
           | Inl (Exn cls m) \<Rightarrow>
               if cls = NotImplementedError then run_fallback lib qry columns result evs
               else \<lparr>returned = Inl (Exn cls m), calls = evs, columns_after = columns\<rparr>))"

subsection \<open>select (lines 61 to 251)\<close>

text \<open>Lines 137 and 138.\<close>

definition limit_param :: "table_class \<Rightarrow> select_query \<Rightarrow> (string \<times> pyval) list \<Rightarrow> (string \<times> pyval) list" where
  "limit_param tc qry kwargs =
     (case limit qry of
        None \<Rightarrow> kwargs
      | Some n \<Rightarrow> if has_key (params_fields tc) ''limit'' then dict_set kwargs ''limit'' (PInt n) else kwargs)"

text \<open>Line 171: the columns handed out by \<open>get_columns\<close>, extended by those of the result.\<close>

definition extend_columns :: "string list \<Rightarrow> dataframe \<Rightarrow> string list" where
  "extend_columns columns result = columns @ filter (\<lambda>col. col \<notin> set columns) (df_columns result)"

text \<open>
  The body of the \<open>try\<close> up to the local filtering, lines 136 to 167: the remote
  call, the post-processing and the filtering, with the events so far.
\<close>

definition fetch_stage ::
  "('dt, 'td) library \<Rightarrow> table_class \<Rightarrow> select_query \<Rightarrow> scan_state \<Rightarrow> (exn + dataframe) \<times> event list" where
  "fetch_stage lib tc qry st =
     (let kwargs = limit_param tc qry (params st) in
      case bind_exn (obb_function tc kwargs) (none_check tc) of
        Inl e \<Rightarrow> (Inl e, [RemoteCall kwargs])
      | Inr result \<Rightarrow>
          (case post_process lib tc qry kwargs (map fst (columns_to_add st)) result of
             Inl e \<Rightarrow> (Inl e, [RemoteCall kwargs])
           | Inr result \<Rightarrow>
               (bind_exn (filter_dataframe lib result (filters st)) (none_check tc),
                [RemoteCall kwargs, LocalFilter result (filters st)])))"

text \<open>
  The body of the \<open>try\<close>, lines 136 to 192: the targets are validated against the
  list \<open>response_columns\<close> as the call found it, extended by the columns of the
  filtered frame.
\<close>

definition select_body ::
  "('dt, 'td) library \<Rightarrow> table_class \<Rightarrow> string list \<Rightarrow> select_query \<Rightarrow> scan_state \<Rightarrow> select_outcome" where
  "select_body lib tc columns qry st =
     (case fetch_stage lib tc qry st of
        (Inl e, evs) \<Rightarrow> \<lparr>returned = Inl e, calls = evs, columns_after = columns\<rparr>
      | (Inr result, evs) \<Rightarrow> project_stage lib qry (extend_columns columns result) result evs)"

text \<open>
  \<open>select\<close>. The loop over the conditions and the test of the mandatory arguments
  stand before the \<open>try\<close>: what they raise reaches the caller as it is. What the
  body of the \<open>try\<close> raises goes through the handlers.
\<close>

definition query_arg_params :: "select_query \<Rightarrow> (string option \<times> pyval) list" where
  "query_arg_params qry = get_params_from_conditions (where_conditions qry)"

definition query_strict_filter :: "select_query \<Rightarrow> pyval" where
  "query_strict_filter qry = dict_get (query_arg_params qry) (Some ''strict_filter'') (PBool False)"

text \<open>
  The loop of \<open>select\<close> run over a list of conditions: \<open>arg_params\<close> and
  \<open>strict_filter\<close> come from all the conditions of the query, whichever part of them
  the loop has reached.
\<close>

definition scan ::
  "('dt, 'td) library \<Rightarrow> table_class \<Rightarrow> string list \<Rightarrow> select_query \<Rightarrow> condition list \<Rightarrow> exn + scan_state" where
  "scan lib tc columns qry conditions =
     scan_conditions lib tc columns (query_arg_params qry) (query_strict_filter qry)
       (initial_state tc) conditions"

definition select :: "('dt, 'td) library \<Rightarrow> table_class \<Rightarrow> string list \<Rightarrow> select_query \<Rightarrow> select_outcome" where
  "select lib tc columns qry =
     (case scan lib tc columns qry (where_conditions qry) of
        Inl e \<Rightarrow> \<lparr>returned = Inl e, calls = [], columns_after = columns\<rparr>
      | Inr st \<Rightarrow>
          if \<not> list_all snd (mandatory_args_set st)
          then \<lparr>returned = Inl (Exn NotImplementedError (missing_args_text tc st)),
                calls = [], columns_after = columns\<rparr>
          else (let out = select_body lib tc columns qry st in
                case returned out of
                  Inl e \<Rightarrow> out\<lparr>returned := Inl (reraise tc e)\<rparr>
                | Inr r \<Rightarrow> out))"

subsection \<open>The condition extractor and the local filters, as the specification words them\<close>

text \<open>
  Modelled from the spec: \<open>extract_comparison_conditions\<close> is not among the source
  files. Section 4.1: the input is a filter tree, a conjunction of binary comparisons,
  possibly nested; the output is the flat sequence of their triples, left to right and
  depth first; a disjunction anywhere in the tree yields the single triple
  \<open>(or, None, None)\<close>.
\<close>

datatype filter_tree =
    Comparison string string pyval
  | Conjunction filter_tree filter_tree
  | Disjunction filter_tree filter_tree

fun has_disjunction :: "filter_tree \<Rightarrow> bool" where
  "has_disjunction (Comparison op column v) = False"
| "has_disjunction (Conjunction l r) = (has_disjunction l \<or> has_disjunction r)"
| "has_disjunction (Disjunction l r) = True"

fun comparisons :: "filter_tree \<Rightarrow> condition list" where
  "comparisons (Comparison op column v) = [(op, Some column, v)]"
| "comparisons (Conjunction l r) = comparisons l @ comparisons r"
| "comparisons (Disjunction l r) = comparisons l @ comparisons r"

definition extract_comparison_conditions :: "filter_tree \<Rightarrow> condition list" where
  "extract_comparison_conditions t =
     (if has_disjunction t then [(''or'', None, PNone)] else comparisons t)"

text \<open>
  Section 4.3, step 3, of the specification: a condition is consumed by the time-range
  pushdown when its left operand is a response field of temporal type with a
  \<open>start_\<close> parameter, and by the direct pushdown when it is an equality on a declared
  parameter, or any equality when the strict filter is off; the local filters are the
  conditions that neither consumes. This is the specification's reading, kept apart
  from \<open>select\<close> to compare the two.
\<close>

definition time_range_pushed :: "table_class \<Rightarrow> string list \<Rightarrow> condition \<Rightarrow> bool" where
  "time_range_pushed tc columns c =
     (case c of (op, arg1, arg2) \<Rightarrow>
        (case arg1 of
           None \<Rightarrow> False
         | Some a \<Rightarrow> has_key (params_fields tc) (''start_'' @ a) \<and> a \<in> set columns
                      \<and> map_of (response_fields tc) a = Some (AnnStr ''datetime'')
                      \<and> arg2 \<noteq> PNone \<and> op \<in> set [''>'', ''<'', ''>='', ''<='', ''='']))"

definition directly_pushed :: "table_class \<Rightarrow> pyval \<Rightarrow> condition \<Rightarrow> bool" where
  "directly_pushed tc strict_filter c =
     (case c of (op, arg1, arg2) \<Rightarrow>
        (case arg1 of
           None \<Rightarrow> False
         | Some a \<Rightarrow> op = ''='' \<and> (has_key (params_fields tc) a \<or> \<not> truthy strict_filter)))"

definition spec_local_filters :: "table_class \<Rightarrow> string list \<Rightarrow> select_query \<Rightarrow> condition list" where
  "spec_local_filters tc columns qry =
     filter (\<lambda>c. \<not> time_range_pushed tc columns c \<and> \<not> directly_pushed tc (query_strict_filter qry) c)
       (where_conditions qry)"

subsection \<open>Targets that the validation accepts\<close>

text \<open>
  A target that the loop of lines 173 to 184 accepts: a star, or an identifier, or a
  function call over an identifier, whose last name part in lower case is one of the
  columns.
\<close>

fun known_target :: "string list \<Rightarrow> target \<Rightarrow> bool" where
  "known_target columns Star = True"
| "known_target columns (Identifier parts) = (parts \<noteq> [] \<and> lower (last parts) \<in> set columns)"
| "known_target columns (Function f []) = False"
| "known_target columns (Function f (a # args)) =
     (case a of Identifier parts \<Rightarrow> parts \<noteq> [] \<and> lower (last parts) \<in> set columns | _ \<Rightarrow> False)"
| "known_target columns (OtherTarget n) = False"

subsection \<open>A library and a table to run select on\<close>

text \<open>
  Concrete collaborators for concrete runs; \<open>select\<close> itself is stated for any
  library, and the theorems below that speak of every call hold for every library.
  A datetime is a number of seconds since 1970-01-01 00:00:00 and a time delta a
  number of seconds; calendar dates are proleptic Gregorian. The parser reads
  \<open>YYYY-MM-DD\<close> and rejects anything else; the interval reads a count followed by
  \<open>d\<close> or \<open>h\<close>.
\<close>

definition days_from_civil :: "int \<Rightarrow> int \<Rightarrow> int \<Rightarrow> int" where
  "days_from_civil y m d =
     (let y' = (if m \<le> 2 then y - 1 else y);
          era = y' div 400;
          yoe = y' - era * 400;
          doy = (153 * (if 2 < m then m - 3 else m + 9) + 2) div 5 + d - 1;
          doe = yoe * 365 + yoe div 4 - yoe div 100 + doy
      in era * 146097 + doe - 719468)"

definition civil_from_days :: "int \<Rightarrow> int \<times> int \<times> int" where
  "civil_from_days z =
     (let z' = z + 719468;
          era = z' div 146097;
          doe = z' - era * 146097;
          yoe = (doe - doe div 1460 + doe div 36524 - doe div 146096) div 365;
          doy = doe - (365 * yoe + yoe div 4 - yoe div 100);
          mp = (5 * doy + 2) div 153;
          d = doy - (153 * mp + 2) div 5 + 1;
          m = (if mp < 10 then mp + 3 else mp - 9);
          y = yoe + era * 400
      in (if m \<le> 2 then y + 1 else y, m, d))"

definition digit_of :: "char \<Rightarrow> int option" where
  "digit_of c = (let n = (of_char c :: nat) in if 48 \<le> n \<and> n \<le> 57 then Some (int n - 48) else None)"

fun number_of :: "int \<Rightarrow> string \<Rightarrow> int option" where
  "number_of acc [] = Some acc"
| "number_of acc (c # cs) = (case digit_of c of None \<Rightarrow> None | Some k \<Rightarrow> number_of (10 * acc + k) cs)"

definition two_digits :: "int \<Rightarrow> string" where
  "two_digits n = [char_of (48 + nat (n div 10 mod 10)), char_of (48 + nat (n mod 10))]"

definition ymd_text :: "int \<times> int \<times> int \<Rightarrow> string" where
  "ymd_text t = (case t of (y, m, d) \<Rightarrow>
     two_digits (y div 100) @ two_digits (y mod 100) @ ''-'' @ two_digits m @ ''-'' @ two_digits d)"

definition demo_parse_local_date :: "pyval \<Rightarrow> exn + int" where
  "demo_parse_local_date v =
     (case v of
        PStr s \<Rightarrow>
          (case (number_of 0 (take 4 s), number_of 0 (take 2 (drop 5 s)), number_of 0 (drop 8 s)) of
             (Some y, Some m, Some d) \<Rightarrow>
               if length s = 10 \<and> take 1 (drop 4 s) = ''-'' \<and> take 1 (drop 7 s) = ''-''
                  \<and> civil_from_days (days_from_civil y m d) = (y, m, d)
               then Inr (days_from_civil y m d * 86400)
               else Inl (Exn ValueError (''Can't parse date: '' @ s))
           | _ \<Rightarrow> Inl (Exn ValueError (''Can't parse date: '' @ s)))
      | _ \<Rightarrow> Inl (Exn TypeError ''strptime() argument 1 must be str''))"

definition demo_Timedelta :: "pyval \<Rightarrow> exn + int" where
  "demo_Timedelta v =
     (case v of
        PStr s \<Rightarrow>
          (case (if s = [] then None else number_of 0 (butlast s)) of
             Some n \<Rightarrow>
               if butlast s \<noteq> [] \<and> last s = CHR ''d'' then Inr (n * 86400)
               else if butlast s \<noteq> [] \<and> last s = CHR ''h'' then Inr (n * 3600)
               else Inl (Exn ValueError (''invalid unit abbreviation: '' @ s))
           | None \<Rightarrow> Inl (Exn ValueError (''invalid unit abbreviation: '' @ s)))
      | _ \<Rightarrow> Inl (Exn ValueError ''Value must be Timedelta, string, integer, float, timedelta or convertible''))"

definition demo_strftime :: "int \<Rightarrow> string" where
  "demo_strftime t = ymd_text (civil_from_days (t div 86400))"

text \<open>
  The frame helpers. \<open>reset_index\<close> puts the timestamps in front as a column named
  after the index. Cells compare as integers or as texts; a comparison between other
  cells is false. Sorting is a stable insertion sort on one column per order term, the
  last term first. Filtering keeps the rows that satisfy every condition. Projection
  knows stars and identifiers and leaves the rest to the caller.
\<close>

definition demo_reset_index :: "dataframe \<Rightarrow> exn + dataframe" where
  "demo_reset_index df =
     (case df_index df of
        OtherIndex \<Rightarrow> Inr df
      | DatetimeIndex n ts \<Rightarrow>
          if n \<in> set (df_columns df) then Inl (Exn ValueError (''cannot insert '' @ n @ '', already exists''))
          else Inr \<lparr>df_index = OtherIndex, df_columns = n # df_columns df,
                    df_rows = map (\<lambda>tr. fst tr # snd tr) (zip ts (df_rows df))\<rparr>)"

fun text_less :: "string \<Rightarrow> string \<Rightarrow> bool" where
  "text_less [] [] = False"
| "text_less [] (d # ds) = True"
| "text_less (c # cs) [] = False"
| "text_less (c # cs) (d # ds) =
     ((of_char c :: nat) < of_char d \<or> (c = d \<and> text_less cs ds))"

fun cell_less :: "pyval \<Rightarrow> pyval \<Rightarrow> bool" where
  "cell_less (PInt a) (PInt b) = (a < b)"
| "cell_less (PStr a) (PStr b) = text_less a b"
| "cell_less a b = False"

definition column_index :: "dataframe \<Rightarrow> string \<Rightarrow> nat" where
  "column_index df c = length (takeWhile (\<lambda>x. x \<noteq> c) (df_columns df))"

definition cell :: "dataframe \<Rightarrow> string \<Rightarrow> pyval list \<Rightarrow> pyval" where
  "cell df c r = (if column_index df c < length r then r ! column_index df c else PNone)"

fun insert_row :: "(pyval list \<Rightarrow> pyval list \<Rightarrow> bool) \<Rightarrow> pyval list \<Rightarrow> pyval list list \<Rightarrow> pyval list list" where
  "insert_row lt r [] = [r]"
| "insert_row lt r (x # xs) = (if lt r x then r # x # xs else x # insert_row lt r xs)"

definition sort_rows :: "(pyval list \<Rightarrow> pyval list \<Rightarrow> bool) \<Rightarrow> pyval list list \<Rightarrow> pyval list list" where
  "sort_rows lt rs = foldr (insert_row lt) rs []"

fun demo_sort_dataframe :: "dataframe \<Rightarrow> (string \<times> string) list \<Rightarrow> exn + dataframe" where
  "demo_sort_dataframe df [] = Inr df"
| "demo_sort_dataframe df ((c, dir) # terms) =
     (if c \<in> set (df_columns df)
      then (case demo_sort_dataframe df terms of
              Inl e \<Rightarrow> Inl e
            | Inr df' \<Rightarrow>
                Inr (df'\<lparr>df_rows :=
                       sort_rows (\<lambda>r x. if dir = ''DESC'' then cell_less (cell df c x) (cell df c r)
                                         else cell_less (cell df c r) (cell df c x))
                         (df_rows df')\<rparr>))
      else Inl (key_error c))"

definition holds :: "string \<Rightarrow> pyval \<Rightarrow> pyval \<Rightarrow> bool" where
  "holds op a b =
     (if op = ''='' then a = b
      else if op = ''!='' then a \<noteq> b
      else if op = ''<'' then cell_less a b
      else if op = ''>'' then cell_less b a
      else if op = ''<='' then cell_less a b \<or> a = b
      else cell_less b a \<or> a = b)"

fun demo_filter_dataframe :: "dataframe \<Rightarrow> condition list \<Rightarrow> exn + dataframe option" where
  "demo_filter_dataframe df [] = Inr (Some df)"
| "demo_filter_dataframe df ((op, arg1, arg2) # conditions) =
     (case arg1 of
        None \<Rightarrow> Inl (Exn NotImplementedError (''Unknown filter: '' @ op))
      | Some c \<Rightarrow>
          if op \<notin> set [''='', ''!='', ''<'', ''>'', ''<='', ''>='']
          then Inl (Exn NotImplementedError (''Unknown filter: '' @ op))
          else if c \<in> set (df_columns df)
          then demo_filter_dataframe
                 (df\<lparr>df_rows := filter (\<lambda>r. holds op (cell df c r) arg2) (df_rows df)\<rparr>) conditions
          else Inl (key_error c))"

fun projected_columns :: "dataframe \<Rightarrow> target list \<Rightarrow> exn + string list" where
  "projected_columns df [] = Inr []"
| "projected_columns df (t # ts) =
     (case projected_columns df ts of
        Inl e \<Rightarrow> Inl e
      | Inr cs \<Rightarrow>
          (case t of
             Star \<Rightarrow> Inr (df_columns df @ cs)
           | Identifier parts \<Rightarrow>
               if parts \<noteq> [] \<and> last parts \<in> set (df_columns df) then Inr (last parts # cs)
               else Inl (key_error (join ''.'' parts))
           | Function f args \<Rightarrow> Inl (Exn NotImplementedError (''Unknown query target '' @ f))
           | OtherTarget n \<Rightarrow> Inl (Exn NotImplementedError (''Unknown query target '' @ n))))"

definition demo_project_dataframe :: "dataframe \<Rightarrow> target list \<Rightarrow> string list \<Rightarrow> exn + dataframe" where
  "demo_project_dataframe df ts columns =
     (case projected_columns df ts of
        Inl e \<Rightarrow> Inl e
      | Inr cs \<Rightarrow> Inr (df\<lparr>df_columns := cs, df_rows := map (\<lambda>r. map (\<lambda>c. cell df c r) cs) (df_rows df)\<rparr>))"

text \<open>
  The query as text, and an engine that does not run SQL: it answers with one cell
  that holds the text it was given, so that a run shows what was handed over.
\<close>

fun target_text :: "target \<Rightarrow> string" where
  "target_text Star = ''*''"
| "target_text (Identifier parts) = join ''.'' parts"
| "target_text (Function f args) = f @ ''('' @ join '', '' (map target_text args) @ '')''"
| "target_text (OtherTarget n) = n"

definition demo_to_string :: "select_query \<Rightarrow> string" where
  "demo_to_string qry =
     ''SELECT '' @ join '', '' (map target_text (targets qry)) @ '' FROM '' @ join ''.'' (from_table qry)"

definition demo_duckdb_query :: "string \<Rightarrow> dataframe \<Rightarrow> exn + dataframe" where
  "demo_duckdb_query query_str df =
     Inr \<lparr>df_index = OtherIndex, df_columns = [''duckdb''], df_rows = [[PStr query_str]]\<rparr>"

definition demo_lib :: "(int, int) library" where
  "demo_lib =
     \<lparr>parse_local_date = demo_parse_local_date,
      Timedelta = demo_Timedelta,
      dt_minus = (\<lambda>d td. Inr (d - td)),
      dt_plus = (\<lambda>d td. Inr (d + td)),
      strftime_ymd = demo_strftime,
      reset_index = demo_reset_index,
      sort_dataframe = demo_sort_dataframe,
      filter_dataframe = demo_filter_dataframe,
      project_dataframe = demo_project_dataframe,
      to_string = demo_to_string,
      duckdb_query = demo_duckdb_query\<rparr>"

text \<open>
  A table of daily prices. The remote function needs \<open>symbol\<close>, has a window
  \<open>start_date\<close> and \<open>end_date\<close>, and answers with the closing prices of three days
  under a datetime index, whatever window and limit it was given.
\<close>

definition demo_remote :: "(string \<times> pyval) list \<Rightarrow> exn + dataframe option" where
  "demo_remote kwargs =
     (if has_key kwargs ''symbol''
      then Inr (Some \<lparr>df_index = DatetimeIndex ''date'' [PStr ''2023-04-30'', PStr ''2023-05-01'', PStr ''2023-05-02''],
                      df_columns = [''close''],
                      df_rows = [[PInt 10], [PInt 11], [PInt 12]]\<rparr>)
      else Inl (Exn ValidationError ''1 validation error for EquityHistorical: symbol Field required''))"

definition demo_table :: table_class where
  "demo_table =
     \<lparr>params_fields =
        [(''symbol'', \<lparr>required = True, annotation = TypeName ''str'', description = Some ''Symbol to get data for.''\<rparr>),
         (''start_date'', \<lparr>required = False, annotation = UnionOf [''date'', ''str''], description = None\<rparr>),
         (''end_date'', \<lparr>required = False, annotation = UnionOf [''date'', ''str''], description = None\<rparr>),
         (''limit'', \<lparr>required = False, annotation = TypeName ''int'', description = None\<rparr>)],
      response_fields = [(''date'', AnnStr ''datetime''), (''close'', AnnType (TypeName ''float''))],
      obb_function = demo_remote,
      func_docs = ''https://docs.openbb.co'',
      provider = None\<rparr>"

definition prices_query :: "target list \<Rightarrow> condition list \<Rightarrow> int option \<Rightarrow> select_query" where
  "prices_query ts conds n =
     \<lparr>targets = ts, from_table = [''openbb'', ''prices''], where_conditions = conds,
      order_by = [], limit = n\<rparr>"


text \<open>
  Scenario B of the specification, \<open>SELECT close FROM prices WHERE date = '2023-05-01'
  AND symbol = 'ABC'\<close>, and the test whether an event is a hand-over to
  \<open>_select_dataframe\<close>.
\<close>

definition scenario_B :: select_query where
  "scenario_B =
     prices_query [Identifier [''close'']]
       [(''='', Some ''date'', PStr ''2023-05-01''), (''='', Some ''symbol'', PStr ''ABC'')] None"

definition is_fallback :: "event \<Rightarrow> bool" where
  "is_fallback ev = (case ev of Fallback q d \<Rightarrow> True | _ \<Rightarrow> False)"

definition prices_frame :: dataframe where
  "prices_frame =
     \<lparr>df_index = OtherIndex, df_columns = [''date'', ''close'', ''symbol''],
      df_rows = [[PStr ''2023-04-30'', PInt 10, PStr ''ABC''],
                 [PStr ''2023-05-01'', PInt 11, PStr ''ABC''],
                 [PStr ''2023-05-02'', PInt 12, PStr ''ABC'']]\<rparr>"

section \<open>Properties of the Backend Adapter\<close>

subsection \<open>Table existence is never checked\<close>

text \<open>
  Claim C10. For every table name, \<open>has_table\<close> answers \<open>True\<close> and
  \<open>get_table_columns\<close> answers the empty list: neither asks the connector, so a
  caller learns nothing about a missing table from them.
\<close>

theorem has_table_unconditional:
  "has_table node tableName = True \<and> get_table_columns node tableName = []"
  by (simp add: has_table_def get_table_columns_def)

subsection \<open>Error mapping of query\<close>

text \<open>
  Claim C8. For every dispatch through \<open>query\<close>: when the connector raises, the
  adapter raises a \<open>DBHandlerException\<close> whose message is
  \<open>[ds_type/integration_name]: \<close> followed by the stripped message of the exception,
  or by the name of its class when nothing is left after stripping (white space is
  what \<open>str.strip\<close> removes, the no-break space and the next-line control
  included); when the connector
  returns a response of kind \<open>ERROR\<close>, the adapter raises a plain \<open>Exception\<close>
  that carries the connector's error message; when it returns \<open>OK\<close>, the adapter
  returns no rows and no column metadata.
\<close>

theorem query_error_policy:
  "(dispatch node db q nq = (Inl (Exn cls m), db') \<longrightarrow>
      query pd node db q nq =
        (Inl (Exn DBHandlerException
               (''['' @ ds_type node @ ''/'' @ integration_name node @ '']: '' @
                (if strip m = [] then class_name cls else strip m))), db'))
   \<and> (dispatch node db q nq = (Inr r, db') \<and> resp_type r = ERROR \<longrightarrow>
      query pd node db q nq =
        (Inl (Exn Exception (''Error in '' @ integration_name node @ '': '' @ str_opt (error_message r))), db'))
   \<and> (dispatch node db q nq = (Inr r, db') \<and> resp_type r = OK \<longrightarrow>
      query pd node db q nq = (Inr ([], []), db'))"
  by (simp add: query_def wrap_connector_error_def Let_def)

lemma strip_latin1:
  "strip [CHR 0xA0, CHR 0x85] = []"
  "strip ([CHR 0x85] @ ''time out'' @ [CHR 0xA0]) = ''time out''"
  by (simp_all add: strip_def is_space_def)

lemma demo_dispatch_no_break_space:
  "dispatch demo_node 0 (Some (OtherStatement [CHR 0xA0, CHR 0x85])) None
     = (Inl (Exn (OtherException ''ConnectionError'') [CHR 0xA0, CHR 0x85]), 0)"
  by (simp add: dispatch_def node_query_def demo_node_def demo_handler_query_def strip_def is_space_def)

lemma demo_dispatch_blank:
  "dispatch demo_node 0 (Some (OtherStatement ''  '')) None
     = (Inl (Exn (OtherException ''ConnectionError'') ''  ''), 0)"
  by (simp add: dispatch_def node_query_def demo_node_def demo_handler_query_def strip_def is_space_def)

lemma demo_dispatch_error:
  "dispatch demo_node 0 None (Some ''selec 1'')
     = (Inr \<lparr>resp_type = ERROR, error_message = Some ''syntax error in selec 1'', data_frame = None\<rparr>, 0)"
  by (simp add: dispatch_def node_native_query_def demo_node_def demo_handler_native_query_def
      demo_handler_query_def strip_def is_space_def)

lemma demo_dispatch_ok:
  "dispatch demo_node 0 (Some (DropTables [[''t'']] True)) None
     = (Inr \<lparr>resp_type = OK, error_message = None, data_frame = None\<rparr>, 1)"
  by (simp add: dispatch_def node_query_def demo_node_def demo_handler_query_def)

theorem query_error_policy_witness:
  "query demo_pandas demo_node 0 (Some (OtherStatement ''  '')) None
     = (Inl (Exn DBHandlerException ''[postgres/mydb]: ConnectionError''), 0)
   \<and> query demo_pandas demo_node 0 None (Some ''selec 1'')
     = (Inl (Exn Exception ''Error in mydb: syntax error in selec 1''), 0)
   \<and> query demo_pandas demo_node 0 (Some (DropTables [[''t'']] True)) None = (Inr ([], []), 1)
   \<and> query demo_pandas demo_node 0 (Some (OtherStatement [CHR 0xA0, CHR 0x85])) None
     = (Inl (Exn DBHandlerException ''[postgres/mydb]: ConnectionError''), 0)"
proof -
  have d: "query demo_pandas demo_node 0 (Some (OtherStatement [CHR 0xA0, CHR 0x85])) None
             = (Inl (Exn DBHandlerException ''[postgres/mydb]: ConnectionError''), 0)"
    using query_error_policy[where node = demo_node and db = 0
          and q = "Some (OtherStatement [CHR 0xA0, CHR 0x85])" and nq = None
          and cls = "OtherException ''ConnectionError''" and m = "[CHR 0xA0, CHR 0x85]" and db' = 0
          and pd = demo_pandas] demo_dispatch_no_break_space
    by (simp add: demo_node_def strip_latin1)
  have a: "query demo_pandas demo_node 0 (Some (OtherStatement ''  '')) None
             = (Inl (Exn DBHandlerException ''[postgres/mydb]: ConnectionError''), 0)"
    using query_error_policy[where node = demo_node and db = 0
          and q = "Some (OtherStatement ''  '')" and nq = None
          and cls = "OtherException ''ConnectionError''" and m = "''  ''" and db' = 0
          and pd = demo_pandas] demo_dispatch_blank
    by (simp add: demo_node_def strip_def is_space_def)
  have b: "query demo_pandas demo_node 0 None (Some ''selec 1'')
             = (Inl (Exn Exception ''Error in mydb: syntax error in selec 1''), 0)"
    using query_error_policy[where node = demo_node and db = 0 and q = None
          and nq = "Some ''selec 1''" and db' = 0 and pd = demo_pandas
          and r = "\<lparr>resp_type = ERROR, error_message = Some ''syntax error in selec 1'', data_frame = None\<rparr>"]
      demo_dispatch_error
    by (simp add: demo_node_def)
  have c: "query demo_pandas demo_node 0 (Some (DropTables [[''t'']] True)) None = (Inr ([], []), 1)"
    using query_error_policy[where node = demo_node and db = 0
          and q = "Some (DropTables [[''t'']] True)" and nq = None and db' = 1 and pd = demo_pandas
          and r = "\<lparr>resp_type = OK, error_message = None, data_frame = None\<rparr>"]
      demo_dispatch_ok
    by simp
  from a b c d show ?thesis by simp
qed

subsection \<open>Insert preparation\<close>

lemma py_int_PInt: "py_int B v = Inr v' \<Longrightarrow> \<exists>i. v' = PInt i"
  by (induction B v rule: py_int.induct) (auto split: sum.splits)

lemma py_float_PFloat: "py_float B v = Inr v' \<Longrightarrow> \<exists>f. v' = PFloat f"
  by (induction B v rule: py_float.induct) (auto split: sum.splits)

lemma py_str_PStr: "py_str B v = Inr v' \<Longrightarrow> \<exists>s. v' = PStr s"
  by (induction B v rule: py_str.induct) (auto split: sum.splits)

lemma coerce_value_idem: "coerce_value B ct (coerce_value B ct v) = coerce_value B ct v"
proof (cases "python_type B ct v")
  case (Inl e)
  then show ?thesis by (simp add: coerce_value_def)
next
  case (Inr v')
  show ?thesis
  proof (cases ct)
    case Integer
    with Inr obtain i where "v' = PInt i" using py_int_PInt by fastforce
    with Inr Integer show ?thesis by (simp add: coerce_value_def)
  next
    case Float
    with Inr obtain f where "v' = PFloat f" using py_float_PFloat by fastforce
    with Inr Float show ?thesis by (simp add: coerce_value_def)
  next
    case Text
    with Inr obtain s where "v' = PStr s" using py_str_PStr by fastforce
    with Inr Text show ?thesis by (simp add: coerce_value_def)
  qed
qed

lemma format_record_Inr:
  "format_record B meta cols r = Inr row \<Longrightarrow>
     row = map (\<lambda>c. coerced_cell B meta r (col_alias c)) cols \<and>
     list_all (\<lambda>c. map_of r (col_alias c) \<noteq> None \<and> meta (col_alias c) \<noteq> None) cols"
  by (induction cols arbitrary: row) (auto simp: coerced_cell_def split: option.splits sum.splits)

lemma format_record_total:
  "list_all (\<lambda>c. map_of r (col_alias c) \<noteq> None \<and> meta (col_alias c) \<noteq> None) cols \<Longrightarrow>
   format_record B meta cols r = Inr (map (\<lambda>c. coerced_cell B meta r (col_alias c)) cols)"
  by (induction cols) (auto simp: coerced_cell_def split: option.splits sum.splits)

lemma map_of_zip_alias:
  "c \<in> set cols \<Longrightarrow>
   map_of (zip (map col_alias cols) (map (\<lambda>c. g (col_alias c)) cols)) (col_alias c) = Some (g (col_alias c))"
  by (induction cols) auto

lemma format_record_twice:
  assumes "format_record B meta cols r = Inr row"
  shows "format_record B meta cols (zip (map col_alias cols) row) = Inr row"
proof -
  let ?g = "\<lambda>c. coerced_cell B meta r (col_alias c)"
  let ?r' = "zip (map col_alias cols) row"
  from format_record_Inr[OF assms] have row: "row = map ?g cols"
    and ok: "list_all (\<lambda>c. map_of r (col_alias c) \<noteq> None \<and> meta (col_alias c) \<noteq> None) cols" by auto
  have look: "map_of ?r' (col_alias c) = Some (coerced_cell B meta r (col_alias c))" if "c \<in> set cols" for c
    unfolding row using that by (rule map_of_zip_alias)
  have key: "list_all (\<lambda>c. map_of ?r' (col_alias c) \<noteq> None \<and> meta (col_alias c) \<noteq> None) cols"
    using ok look by (simp add: list_all_iff)
  have "format_record B meta cols ?r' = Inr (map (\<lambda>c. coerced_cell B meta ?r' (col_alias c)) cols)"
    by (rule format_record_total[OF key])
  also have "map (\<lambda>c. coerced_cell B meta ?r' (col_alias c)) cols = map ?g cols"
  proof (rule map_cong[OF refl])
    fix c assume "c \<in> set cols"
    from look[OF this] show "coerced_cell B meta ?r' (col_alias c) = ?g c"
      by (simp add: coerced_cell_def coerce_value_idem)
  qed
  finally show ?thesis using row by simp
qed

lemma formatted_data_twice:
  "formatted_data B cols recs = Inr rows \<Longrightarrow>
   formatted_data B cols (map (\<lambda>row. zip (map col_alias cols) row) rows) = Inr rows"
proof (induction recs arbitrary: rows)
  case Nil
  then show ?case by simp
next
  case (Cons r recs)
  then obtain row rows' where r: "format_record B (table_columns_meta cols) cols r = Inr row"
    and rs: "formatted_data B cols recs = Inr rows'" and rows: "rows = row # rows'"
    by (auto split: sum.splits)
  from Cons.IH[OF rs] format_record_twice[OF r] rows show ?case by simp
qed

text \<open>
  Claim C9. Insert preparation is idempotent. A value that already has the Python
  type of its column's storage type (\<open>int\<close> for \<open>Integer\<close>, \<open>float\<close> for
  \<open>Float\<close>, \<open>str\<close> otherwise) is left as it is; coercing a coerced value
  changes nothing; a conversion that raises keeps the raw value; every record that has
  a cell for each column gives a row, whatever its conversions do; and a second pass
  over the rows the first pass produced, keyed by the column aliases again, returns
  exactly those rows.
\<close>

theorem coercion_idempotent:
  "coerce_value B Integer (PInt i) = PInt i
   \<and> coerce_value B Float (PFloat f) = PFloat f
   \<and> coerce_value B Text (PStr s) = PStr s
   \<and> coerce_value B ct (coerce_value B ct v) = coerce_value B ct v
   \<and> (python_type B ct v = Inl e \<longrightarrow> coerce_value B ct v = v)
   \<and> (list_all (\<lambda>r. list_all (\<lambda>c. map_of r (col_alias c) \<noteq> None) cols) recs \<longrightarrow>
        formatted_data B cols recs
          = Inr (map (\<lambda>r. map (\<lambda>c. coerced_cell B (table_columns_meta cols) r (col_alias c)) cols) recs))
   \<and> (formatted_data B cols recs = Inr rows \<longrightarrow>
        formatted_data B cols (map (\<lambda>row. zip (map col_alias cols) row) rows) = Inr rows)"
proof -
  have meta: "table_columns_meta cols (col_alias c) \<noteq> None" if "c \<in> set cols" for c
  proof -
    have "col_alias c \<in> fst ` set (rev (table_columns cols))"
      using that by (force simp: table_columns_def)
    then show ?thesis
      unfolding table_columns_meta_def by (simp add: map_of_eq_None_iff)
  qed
  have total: "formatted_data B cols recs
          = Inr (map (\<lambda>r. map (\<lambda>c. coerced_cell B (table_columns_meta cols) r (col_alias c)) cols) recs)"
    if "list_all (\<lambda>r. list_all (\<lambda>c. map_of r (col_alias c) \<noteq> None) cols) recs"
    using that
  proof (induction recs)
    case Nil
    then show ?case by simp
  next
    case (Cons r recs)
    then have "list_all (\<lambda>c. map_of r (col_alias c) \<noteq> None \<and> table_columns_meta cols (col_alias c) \<noteq> None) cols"
      using meta by (simp add: list_all_iff)
    from format_record_total[OF this, of B] Cons show ?case by simp
  qed
  show ?thesis
    using total formatted_data_twice[of B cols recs rows] coerce_value_idem[of B ct v]
    by (auto simp: coerce_value_def)
qed

theorem coercion_idempotent_witness:
  "coerce_value demo_builtins Integer (PStr ''abc'') = PStr ''abc''
   \<and> formatted_data demo_builtins
         [\<lparr>col_alias = ''n'', col_type = NpDtype True True\<rparr>, \<lparr>col_alias = ''s'', col_type = NotDtype\<rparr>]
         [[(''n'', PStr ''abc''), (''s'', PInt 7)], [(''n'', PBool True), (''s'', PNone)]]
       = Inr [[PStr ''abc'', PStr ''7''], [PInt 1, PNone]]
   \<and> formatted_data demo_builtins
         [\<lparr>col_alias = ''n'', col_type = NpDtype True True\<rparr>, \<lparr>col_alias = ''s'', col_type = NotDtype\<rparr>]
         [[(''n'', PStr ''abc''), (''s'', PStr ''7'')], [(''n'', PInt 1), (''s'', PNone)]]
       = Inr [[PStr ''abc'', PStr ''7''], [PInt 1, PNone]]"
proof -
  let ?cols = "[\<lparr>col_alias = ''n'', col_type = NpDtype True True\<rparr>, \<lparr>col_alias = ''s'', col_type = NotDtype\<rparr>]"
  let ?recs = "[[(''n'', PStr ''abc''), (''s'', PInt 7)], [(''n'', PBool True), (''s'', PNone)]]"
  let ?rows = "[[PStr ''abc'', PStr ''7''], [PInt 1, PNone]]"
  have fail: "python_type demo_builtins Integer (PStr ''abc'')
                = Inl (Exn ValueError ''invalid literal for int() with base 10: abc'')"
    by (simp add: demo_builtins_def)
  have keys: "list_all (\<lambda>r. list_all (\<lambda>c. map_of r (col_alias c) \<noteq> None) ?cols) ?recs"
    by simp
  have cells: "map (\<lambda>r. map (\<lambda>c. coerced_cell demo_builtins (table_columns_meta ?cols) r (col_alias c)) ?cols) ?recs
                 = ?rows"
    by (simp add: coerced_cell_def table_columns_meta_def table_columns_def coerce_value_def
        demo_builtins_def)
  note inst = coercion_idempotent[of demo_builtins 0 NaN "[]" Integer "PStr ''abc''"
      "Exn ValueError ''invalid literal for int() with base 10: abc''" ?cols ?recs ?rows]
  have one: "formatted_data demo_builtins ?cols ?recs = Inr ?rows"
    using inst keys cells by simp
  have two: "formatted_data demo_builtins ?cols (map (\<lambda>row. zip (map col_alias ?cols) row) ?rows) = Inr ?rows"
    using inst one by blast
  have raw: "coerce_value demo_builtins Integer (PStr ''abc'') = PStr ''abc''"
    using inst fail by blast
  from raw one two show ?thesis by simp
qed

section \<open>Properties of the table translator\<close>

subsection \<open>The loop, the events and the texts\<close>

lemma bind_exn_Inr:
  "bind_exn x f = Inr y \<longleftrightarrow> (\<exists>v. x = Inr v \<and> f v = Inr y)"
  by (cases x) (simp_all add: bind_exn_def)

lemma select_condition_or:
  "select_condition lib tc cols ap sf st (''or'', a, v) = Inl (Exn NotImplementedError ''OR is not supported'')"
  by (simp add: select_condition_def)

lemma select_condition_filters:
  assumes "select_condition lib tc cols ap sf st c = Inr st'"
  shows "filters st' = filters st @ [c]"
proof -
  obtain op a v where c: "c = (op, a, v)" by (cases c) auto
  from assms c obtain st1 where "st' = st1\<lparr>filters := filters st1 @ [c]\<rparr>" and "filters st1 = filters st"
    by (auto simp: select_condition_def bind_exn_Inr Let_def split: if_splits option.splits)
  then show ?thesis by simp
qed

lemma scan_conditions_filters:
  "scan_conditions lib tc cols ap sf st cs = Inr st' \<Longrightarrow> filters st' = filters st @ cs"
proof (induction cs arbitrary: st)
  case Nil
  then show ?case by simp
next
  case (Cons c cs)
  then obtain st1 where a: "select_condition lib tc cols ap sf st c = Inr st1"
    and b: "scan_conditions lib tc cols ap sf st1 cs = Inr st'"
    by (auto split: sum.splits)
  from Cons.IH[OF b] select_condition_filters[OF a] show ?case by simp
qed

lemma scan_conditions_append:
  "scan_conditions lib tc cols ap sf st (xs @ ys) =
     (case scan_conditions lib tc cols ap sf st xs of
        Inl e \<Rightarrow> Inl e
      | Inr st' \<Rightarrow> scan_conditions lib tc cols ap sf st' ys)"
  by (induction xs arbitrary: st) (auto split: sum.splits)

lemma project_stage_calls:
  "calls (project_stage lib qry cols r evs) = evs \<or>
   calls (project_stage lib qry cols r evs) = evs @ [Fallback qry r]"
  by (auto simp: project_stage_def run_fallback_def split: sum.splits validation.splits exn.splits)

lemma set_column_columns: "set (df_columns (set_column df k v)) = insert k (set (df_columns df))"
  by (auto simp: set_column_def)

lemma add_columns_keys:
  "add_columns kw keys df = Inr df' \<Longrightarrow> set keys \<union> set (df_columns df) \<subseteq> set (df_columns df')"
proof (induction keys arbitrary: df)
  case Nil
  then show ?case by simp
next
  case (Cons key keys)
  then obtain v where "map_of kw key = Some v"
    and r: "add_columns kw keys (set_column df key v) = Inr df'"
    by (auto split: option.splits)
  from Cons.IH[OF r] show ?case by (auto simp: set_column_columns)
qed

lemma post_process_keys:
  assumes "post_process lib tc qry kw keys df = Inr df'"
  shows "set keys \<subseteq> set (df_columns df')"
proof -
  from assms obtain d where "add_columns kw keys d = Inr df'"
    by (auto simp: post_process_def bind_exn_Inr)
  from add_columns_keys[OF this] show ?thesis by simp
qed

lemma fetch_stage_events:
  assumes "fetch_stage lib tc qry st = (r, evs)"
  shows "filter is_fallback evs = []"
    and "LocalFilter df fs \<in> set evs \<Longrightarrow>
           fs = filters st \<and> set (map fst (columns_to_add st)) \<subseteq> set (df_columns df)"
proof -
  let ?kw = "limit_param tc qry (params st)"
  let ?keys = "map fst (columns_to_add st)"
  have "filter is_fallback evs = [] \<and>
        (LocalFilter df fs \<in> set evs \<longrightarrow> fs = filters st \<and> set ?keys \<subseteq> set (df_columns df))"
  proof (cases "bind_exn (obb_function tc ?kw) (none_check tc)")
    case (Inl e)
    with assms show ?thesis by (auto simp: fetch_stage_def Let_def is_fallback_def)
  next
    case r: (Inr result)
    show ?thesis
    proof (cases "post_process lib tc qry ?kw ?keys result")
      case (Inl e)
      with assms r show ?thesis by (auto simp: fetch_stage_def Let_def is_fallback_def)
    next
      case p: (Inr result2)
      from post_process_keys[OF p] have "set ?keys \<subseteq> set (df_columns result2)" .
      with assms r p show ?thesis by (auto simp: fetch_stage_def Let_def is_fallback_def)
    qed
  qed
  then show "filter is_fallback evs = []"
    and "LocalFilter df fs \<in> set evs \<Longrightarrow>
           fs = filters st \<and> set (map fst (columns_to_add st)) \<subseteq> set (df_columns df)"
    by auto
qed

lemma select_body_calls:
  assumes "LocalFilter df fs \<in> set (calls (select_body lib tc cols qry st))"
  shows "fs = filters st \<and> set (map fst (columns_to_add st)) \<subseteq> set (df_columns df)"
proof -
  obtain r evs where f: "fetch_stage lib tc qry st = (r, evs)" by (cases "fetch_stage lib tc qry st") auto
  have "LocalFilter df fs \<in> set evs"
  proof (cases r)
    case (Inl e)
    with assms f show ?thesis by (simp add: select_body_def)
  next
    case (Inr result)
    with assms f have "LocalFilter df fs
        \<in> set (calls (project_stage lib qry (extend_columns cols result) result evs))"
      by (simp add: select_body_def)
    with project_stage_calls[of lib qry "extend_columns cols result" result evs]
    show ?thesis by auto
  qed
  from fetch_stage_events(2)[OF f this] show ?thesis .
qed

lemma str_in_middle: "str_in p (a @ p @ b)"
proof (induction a)
  case Nil
  show ?case
  proof (cases "p @ b")
    case Nil
    then show ?thesis by simp
  next
    case (Cons c cs)
    have "prefix p (p @ b)" by simp
    with Cons show ?thesis by simp
  qed
next
  case (Cons x a)
  then show ?case by simp
qed

lemma reraise_forms:
  "reraise tc (Exn cls msg) =
     Exn Exception
       (if cls \<noteq> AttributeError \<and> cls \<noteq> ValidationError \<and> str_in ''Table not found'' msg
        then msg @ table_not_found_help tc
        else if cls \<noteq> AttributeError \<and> cls \<noteq> ValidationError \<and> str_in ''Missing credential'' msg
        then msg @ missing_credential_help
        else msg @ ''\<newline>\<newline>'' @ docstring tc @ ''.'')"
  by (simp add: with_docstring_def)








lemma check_targets_known_prefix:
  "list_all (known_target cols) pre \<Longrightarrow> check_targets cols (pre @ rest) = check_targets cols rest"
proof (induction pre)
  case Nil
  then show ?case by simp
next
  case (Cons t pre)
  then have k: "known_target cols t" and ih: "check_targets cols (pre @ rest) = check_targets cols rest"
    by auto
  show ?case
  proof (cases t)
    case Star
    with ih show ?thesis by simp
  next
    case (Identifier parts)
    with k ih show ?thesis by (simp add: check_column_def)
  next
    case (Function f args)
    with k obtain a as where args: "args = a # as" by (cases args) auto
    with k Function obtain parts where a: "a = Identifier parts" by (cases a) auto
    with k Function args ih show ?thesis by (simp add: check_column_def)
  next
    case (OtherTarget n)
    with k show ?thesis by simp
  qed
qed

lemma check_targets_known: "list_all (known_target cols) ts \<Longrightarrow> check_targets cols ts = Inr Validated"
  using check_targets_known_prefix[of cols ts "[]"] by simp

lemma project_stage_outcome:
  "project_stage lib qry cols r evs =
     \<lparr>returned = select_dataframe lib qry r, calls = evs @ [Fallback qry r], columns_after = cols\<rparr>
   \<or> calls (project_stage lib qry cols r evs) = evs"
  by (auto simp: project_stage_def run_fallback_def split: sum.splits validation.splits exn.splits)

lemma select_body_fallback:
  "(\<exists>r. returned (select_body lib tc cols qry st) = select_dataframe lib qry r
        \<and> filter is_fallback (calls (select_body lib tc cols qry st)) = [Fallback qry r])
   \<or> filter is_fallback (calls (select_body lib tc cols qry st)) = []"
proof -
  obtain r evs where f: "fetch_stage lib tc qry st = (r, evs)" by (cases "fetch_stage lib tc qry st") auto
  note none = fetch_stage_events(1)[OF f]
  show ?thesis
  proof (cases r)
    case (Inl e)
    with f none show ?thesis by (simp add: select_body_def)
  next
    case (Inr result)
    with f have b: "select_body lib tc cols qry st
                 = project_stage lib qry (extend_columns cols result) result evs"
      by (simp add: select_body_def)
    from project_stage_outcome[of lib qry "extend_columns cols result" result evs] none
    show ?thesis unfolding b by (auto simp: is_fallback_def)
  qed
qed

lemma select_fallback:
  "(\<exists>r. returned (select lib tc cols qry)
           = (case select_dataframe lib qry r of Inl e \<Rightarrow> Inl (reraise tc e) | Inr d \<Rightarrow> Inr d)
        \<and> filter is_fallback (calls (select lib tc cols qry)) = [Fallback qry r])
   \<or> filter is_fallback (calls (select lib tc cols qry)) = []"
proof (cases "scan lib tc cols qry (where_conditions qry)")
  case (Inl e)
  then show ?thesis by (simp add: select_def)
next
  case (Inr st)
  show ?thesis
  proof (cases "list_all snd (mandatory_args_set st)")
    case False
    with Inr show ?thesis by (simp add: select_def)
  next
    case True
    with Inr have c: "calls (select lib tc cols qry) = calls (select_body lib tc cols qry st)"
      and r: "returned (select lib tc cols qry)
               = (case returned (select_body lib tc cols qry st) of
                    Inl e \<Rightarrow> Inl (reraise tc e) | Inr d \<Rightarrow> Inr d)"
      by (auto simp: select_def Let_def split: sum.splits)
    from select_body_fallback[of lib tc cols qry st] show ?thesis
      unfolding c r by auto
  qed
qed

lemma keys_dict_set_insert: "fst ` set (dict_set d k v) = insert k (fst ` set d)"
  by (induction d k v rule: dict_set.induct) auto

lemma select_condition_columns_to_add:
  assumes "select_condition lib tc cols ap sf st c = Inr st'"
  shows "\<exists>op a v. c = (op, Some a, v) \<and>
           columns_to_add st' =
             (if op = ''='' \<and> \<not> (has_key (params_fields tc) (''start_'' @ a) \<and> a \<in> set cols \<and> v \<noteq> PNone)
                 \<and> (has_key (params_fields tc) a \<or> \<not> truthy sf)
              then dict_set (columns_to_add st) a v else columns_to_add st)"
proof -
  obtain op a1 v where c: "c = (op, a1, v)" by (cases c) auto
  from assms c obtain a where a: "a1 = Some a"
    by (cases a1) (auto simp: select_condition_def split: if_splits)
  from assms c a have "columns_to_add st' =
             (if op = ''='' \<and> \<not> (has_key (params_fields tc) (''start_'' @ a) \<and> a \<in> set cols \<and> v \<noteq> PNone)
                 \<and> (has_key (params_fields tc) a \<or> \<not> truthy sf)
              then dict_set (columns_to_add st) a v else columns_to_add st)"
    by (auto simp: select_condition_def bind_exn_Inr Let_def split: if_splits option.splits)
  with c a show ?thesis by blast
qed

lemma select_condition_staged:
  assumes "select_condition lib tc cols ap sf st c = Inr st'"
  shows "fst ` set (columns_to_add st) \<subseteq> fst ` set (columns_to_add st')"
    and "c = (''='', Some a, v) \<Longrightarrow>
         \<not> (has_key (params_fields tc) (''start_'' @ a) \<and> a \<in> set cols \<and> v \<noteq> PNone) \<Longrightarrow>
         has_key (params_fields tc) a \<or> \<not> truthy sf \<Longrightarrow>
         a \<in> fst ` set (columns_to_add st')"
proof -
  from select_condition_columns_to_add[OF assms] obtain op x w where c: "c = (op, Some x, w)"
    and eq: "columns_to_add st' =
             (if op = ''='' \<and> \<not> (has_key (params_fields tc) (''start_'' @ x) \<and> x \<in> set cols \<and> w \<noteq> PNone)
                 \<and> (has_key (params_fields tc) x \<or> \<not> truthy sf)
              then dict_set (columns_to_add st) x w else columns_to_add st)" by blast
  define staged where "staged \<longleftrightarrow>
     op = ''='' \<and> \<not> (has_key (params_fields tc) (''start_'' @ x) \<and> x \<in> set cols \<and> w \<noteq> PNone)
       \<and> (has_key (params_fields tc) x \<or> \<not> truthy sf)"
  from eq have eq': "columns_to_add st' = (if staged then dict_set (columns_to_add st) x w else columns_to_add st)"
    unfolding staged_def .
  show "fst ` set (columns_to_add st) \<subseteq> fst ` set (columns_to_add st')"
    unfolding eq' by (cases staged) (simp_all add: keys_dict_set_insert subset_insertI)
  assume c': "c = (''='', Some a, v)"
    and n: "\<not> (has_key (params_fields tc) (''start_'' @ a) \<and> a \<in> set cols \<and> v \<noteq> PNone)"
    and k: "has_key (params_fields tc) a \<or> \<not> truthy sf"
  from c c' have e: "op = ''=''" "x = a" "w = v" by auto
  have staged unfolding staged_def using e n k by blast
  with eq' e show "a \<in> fst ` set (columns_to_add st')"
    by (simp add: keys_dict_set_insert)
qed

lemma scan_conditions_staged:
  assumes "scan_conditions lib tc cols ap sf st cs = Inr st'"
  shows "fst ` set (columns_to_add st) \<subseteq> fst ` set (columns_to_add st')"
    and "(''='', Some a, v) \<in> set cs \<Longrightarrow>
         \<not> (has_key (params_fields tc) (''start_'' @ a) \<and> a \<in> set cols \<and> v \<noteq> PNone) \<Longrightarrow>
         has_key (params_fields tc) a \<or> \<not> truthy sf \<Longrightarrow>
         a \<in> fst ` set (columns_to_add st')"
proof -
  have "fst ` set (columns_to_add st) \<subseteq> fst ` set (columns_to_add st') \<and>
        ((''='', Some a, v) \<in> set cs \<longrightarrow>
         \<not> (has_key (params_fields tc) (''start_'' @ a) \<and> a \<in> set cols \<and> v \<noteq> PNone) \<longrightarrow>
         (has_key (params_fields tc) a \<or> \<not> truthy sf) \<longrightarrow>
         a \<in> fst ` set (columns_to_add st'))"
    using assms
  proof (induction cs arbitrary: st)
    case Nil
    then show ?case by simp
  next
    case (Cons c cs)
    then obtain st1 where s1: "select_condition lib tc cols ap sf st c = Inr st1"
      and s2: "scan_conditions lib tc cols ap sf st1 cs = Inr st'"
      by (auto split: sum.splits)
    from Cons.IH[OF s2] have ih1: "fst ` set (columns_to_add st1) \<subseteq> fst ` set (columns_to_add st')"
      and ih2: "(''='', Some a, v) \<in> set cs \<Longrightarrow>
         \<not> (has_key (params_fields tc) (''start_'' @ a) \<and> a \<in> set cols \<and> v \<noteq> PNone) \<Longrightarrow>
         has_key (params_fields tc) a \<or> \<not> truthy sf \<Longrightarrow>
         a \<in> fst ` set (columns_to_add st')"
      by auto
    from select_condition_staged(1)[OF s1] ih1
    have one: "fst ` set (columns_to_add st) \<subseteq> fst ` set (columns_to_add st')" by blast
    have two: "a \<in> fst ` set (columns_to_add st')"
      if m: "(''='', Some a, v) \<in> set (c # cs)"
        and n: "\<not> (has_key (params_fields tc) (''start_'' @ a) \<and> a \<in> set cols \<and> v \<noteq> PNone)"
        and k: "has_key (params_fields tc) a \<or> \<not> truthy sf"
    proof (cases "c = (''='', Some a, v)")
      case True
      from select_condition_staged(2)[OF s1 True n k] ih1 show ?thesis by blast
    next
      case False
      with m have "(''='', Some a, v) \<in> set cs" by simp
      from ih2[OF this n k] show ?thesis .
    qed
    from one two show ?case by blast
  qed
  then show "fst ` set (columns_to_add st) \<subseteq> fst ` set (columns_to_add st')"
    and "(''='', Some a, v) \<in> set cs \<Longrightarrow>
         \<not> (has_key (params_fields tc) (''start_'' @ a) \<and> a \<in> set cols \<and> v \<noteq> PNone) \<Longrightarrow>
         has_key (params_fields tc) a \<or> \<not> truthy sf \<Longrightarrow>
         a \<in> fst ` set (columns_to_add st')"
    by auto
qed

lemma set_extend_columns: "set (extend_columns columns result) = set columns \<union> set (df_columns result)"
  by (auto simp: extend_columns_def)

lemma known_target_cong:
  "set cols = set cols' \<Longrightarrow> known_target cols t = known_target cols' t"
  by (induction cols t rule: known_target.induct) (auto split: target.splits)

lemma select_reaches_projection:
  assumes "scan lib tc columns qry (where_conditions qry) = Inr st"
    and "list_all snd (mandatory_args_set st)"
    and "fetch_stage lib tc qry st = (Inr result, evs)"
  shows "select lib tc columns qry =
           (let out = project_stage lib qry (extend_columns columns result) result evs
            in out\<lparr>returned := (case returned out of Inl e \<Rightarrow> Inl (reraise tc e) | Inr d \<Rightarrow> Inr d)\<rparr>)"
  using assms by (auto simp: select_def select_body_def Let_def split: sum.splits)

lemma or_triple_anywhere:
  assumes "where_conditions qry = pre @ (''or'', a, v) # post"
  shows "calls (select lib tc cols qry) = []"
    and "scan lib tc cols qry pre = Inr st \<Longrightarrow>
         returned (select lib tc cols qry) = Inl (Exn NotImplementedError ''OR is not supported'')"
    and "scan lib tc cols qry pre = Inl e \<Longrightarrow> returned (select lib tc cols qry) = Inl e"
proof -
  have s: "scan lib tc cols qry (where_conditions qry) =
        (case scan lib tc cols qry pre of
           Inl e \<Rightarrow> Inl e
         | Inr st \<Rightarrow> Inl (Exn NotImplementedError ''OR is not supported''))"
    unfolding scan_def assms scan_conditions_append
    by (simp add: select_condition_or split: sum.splits)
  show "calls (select lib tc cols qry) = []"
    using s by (cases "scan lib tc cols qry pre") (simp_all add: select_def)
  show "scan lib tc cols qry pre = Inr st \<Longrightarrow>
         returned (select lib tc cols qry) = Inl (Exn NotImplementedError ''OR is not supported'')"
    using s by (simp add: select_def)
  show "scan lib tc cols qry pre = Inl e \<Longrightarrow> returned (select lib tc cols qry) = Inl e"
    using s by (simp add: select_def)
qed

subsection \<open>Concrete runs\<close>

lemma demo_dates:
  "demo_parse_local_date (PStr ''2023-05-01'') = Inr 1682899200"
  "demo_parse_local_date (PStr ''2023-01-01'') = Inr 1672531200"
  "demo_parse_local_date (PStr ''garbage'') = Inl (Exn ValueError ''Can't parse date: garbage'')"
  "demo_Timedelta (PStr ''1d'') = Inr 86400"
  "demo_strftime 1682812800 = ''2023-04-30''"
  "demo_strftime 1682899200 = ''2023-05-01''"
  "demo_strftime 1672444800 = ''2022-12-31''"
  by code_simp+

lemma demo_lower: "lower ''close'' = ''close''" "lower ''nosuch'' = ''nosuch''"
  by code_simp+

lemma lower_latin1:
  "lower [CHR 0xC9, CHR ''t'', CHR 0xC9, CHR 0xD7, CHR 0xDF] = [CHR 0xE9, CHR ''t'', CHR 0xE9, CHR 0xD7, CHR 0xDF]"
  by code_simp

lemma latin1_capital_is_validated_in_lower_case:
  "check_targets [[CHR 0xE9]] [Identifier [[CHR 0xC9]]] = Inr Validated"
  by code_simp

lemma demo_table_fields:
  "params_fields demo_table =
        [(''symbol'', \<lparr>required = True, annotation = TypeName ''str'', description = Some ''Symbol to get data for.''\<rparr>),
         (''start_date'', \<lparr>required = False, annotation = UnionOf [''date'', ''str''], description = None\<rparr>),
         (''end_date'', \<lparr>required = False, annotation = UnionOf [''date'', ''str''], description = None\<rparr>),
         (''limit'', \<lparr>required = False, annotation = TypeName ''int'', description = None\<rparr>)]"
  "response_fields demo_table = [(''date'', AnnStr ''datetime''), (''close'', AnnType (TypeName ''float''))]"
  "obb_function demo_table = demo_remote"
  "func_docs demo_table = ''https://docs.openbb.co''"
  "provider demo_table = None"
  by (simp_all add: demo_table_def)

lemma demo_table_columns:
  "response_columns demo_table = [''date'', ''close'']"
  "mandatory_fields demo_table = [''symbol'']"
  by (simp_all add: response_columns_def mandatory_fields_def demo_table_fields)

lemma demo_lib_fields:
  "parse_local_date demo_lib = demo_parse_local_date"
  "Timedelta demo_lib = demo_Timedelta"
  "dt_minus demo_lib = (\<lambda>d td. Inr (d - td))"
  "dt_plus demo_lib = (\<lambda>d td. Inr (d + td))"
  "strftime_ymd demo_lib = demo_strftime"
  "reset_index demo_lib = demo_reset_index"
  "sort_dataframe demo_lib = demo_sort_dataframe"
  "filter_dataframe demo_lib = demo_filter_dataframe"
  "project_dataframe demo_lib = demo_project_dataframe"
  "to_string demo_lib = demo_to_string"
  "duckdb_query demo_lib = demo_duckdb_query"
  by (simp_all add: demo_lib_def)

lemmas scan_eval = scan_def query_arg_params_def get_params_from_conditions_def query_strict_filter_def
  dict_get_def initial_state_def select_condition_def time_range_params_def demo_table_columns
  prices_query_def scenario_B_def has_key_def bind_exn_def Let_def demo_lib_fields demo_dates
  demo_table_fields

lemmas body_eval = select_body_def fetch_stage_def limit_param_def none_check_def post_process_def bind_exn_def Let_def
  demo_lib_fields demo_table_fields demo_remote_def has_key_def demo_reset_index_def set_column_def
  df_head_def holds_def cell_def column_index_def extend_columns_def project_stage_def check_column_def
  demo_project_dataframe_def run_fallback_def select_dataframe_def demo_to_string_def
  demo_duckdb_query_def demo_lower prices_query_def scenario_B_def prices_frame_def unknown_column_def

lemma run_scenario_B:
  "select demo_lib demo_table (response_columns demo_table) scenario_B =
     \<lparr>returned = Inr \<lparr>df_index = OtherIndex, df_columns = [''close''], df_rows = [[PInt 11]]\<rparr>,
      calls = [RemoteCall [(''start_date'', PStr ''2023-04-30''), (''end_date'', PStr ''2023-05-01''),
                           (''symbol'', PStr ''ABC'')],
               LocalFilter prices_frame
                 [(''='', Some ''date'', PStr ''2023-05-01''), (''='', Some ''symbol'', PStr ''ABC'')]],
      columns_after = [''date'', ''close'', ''symbol'']\<rparr>"
  by (simp add: select_def scan_eval body_eval)

lemma run_limit_zero:
  "select demo_lib demo_table (response_columns demo_table)
     (prices_query [Star] [(''='', Some ''symbol'', PStr ''ABC'')] (Some 0)) =
     \<lparr>returned = Inr \<lparr>df_index = OtherIndex, df_columns = [''date'', ''close'', ''symbol''], df_rows = []\<rparr>,
      calls = [RemoteCall [(''symbol'', PStr ''ABC''), (''limit'', PInt 0)],
               LocalFilter \<lparr>df_index = OtherIndex, df_columns = [''date'', ''close'', ''symbol''], df_rows = []\<rparr>
                 [(''='', Some ''symbol'', PStr ''ABC'')]],
      columns_after = [''date'', ''close'', ''symbol'']\<rparr>"
  by (simp add: select_def scan_eval body_eval)

lemma run_or:
  "select demo_lib demo_table (response_columns demo_table) (prices_query [Star] [(''or'', None, PNone)] None) =
     \<lparr>returned = Inl (Exn NotImplementedError ''OR is not supported''), calls = [],
      columns_after = [''date'', ''close'']\<rparr>"
  by (simp add: select_def scan_eval)

lemma run_unknown_function_column:
  "select demo_lib demo_table (response_columns demo_table)
     (prices_query [Function ''avg'' [Identifier [''nosuch'']]] [(''='', Some ''symbol'', PStr ''ABC'')] None) =
     \<lparr>returned = Inl (reraise demo_table (unknown_column ''nosuch'')),
      calls = [RemoteCall [(''symbol'', PStr ''ABC'')],
               LocalFilter prices_frame [(''='', Some ''symbol'', PStr ''ABC'')]],
      columns_after = [''date'', ''close'', ''symbol'']\<rparr>"
  by (simp add: select_def scan_eval body_eval)


lemma run_fetch:
  "fetch_stage demo_lib demo_table
     (prices_query ts [(''='', Some ''symbol'', PStr ''ABC'')] None)
     \<lparr>params = [(''symbol'', PStr ''ABC'')], filters = [(''='', Some ''symbol'', PStr ''ABC'')],
      mandatory_args_set = [(''symbol'', True)], columns_to_add = [(''symbol'', PStr ''ABC'')]\<rparr>
   = (Inr prices_frame,
      [RemoteCall [(''symbol'', PStr ''ABC'')],
       LocalFilter prices_frame [(''='', Some ''symbol'', PStr ''ABC'')]])"
  by (simp add: body_eval)

lemma run_scan:
  "scan demo_lib demo_table cols
     (prices_query ts [(''='', Some ''symbol'', PStr ''ABC'')] None)
     [(''='', Some ''symbol'', PStr ''ABC'')]
   = Inr \<lparr>params = [(''symbol'', PStr ''ABC'')], filters = [(''='', Some ''symbol'', PStr ''ABC'')],
          mandatory_args_set = [(''symbol'', True)], columns_to_add = [(''symbol'', PStr ''ABC'')]\<rparr>"
  by (simp add: scan_eval)

lemma run_greater_equal:
  "time_range_params demo_lib (PStr ''1d'') ''>='' ''date'' (PStr ''2023-01-01'') []
     = Inr [(''start_date'', PStr ''2022-12-31'')]"
  by (simp add: time_range_params_def bind_exn_def demo_lib_fields demo_dates)

subsection \<open>Time-range pushdown\<close>

text \<open>
  What lines 91 to 108 put into the parameters, operator by operator, when the literal
  parses to \<open>d\<close>: \<open>>\<close> and \<open><\<close> take the date itself, \<open>>=\<close> the date one
  interval earlier, \<open><=\<close> the date one interval later. For \<open>=\<close> the lower bound is
  the date one interval earlier, and the upper bound is that earlier date moved one
  interval later again.
\<close>

lemma time_range_translation:
  assumes "parse_local_date lib v = Inr d"
  shows "time_range_params lib iv ''>'' a v kw
           = Inr (dict_set kw (''start_'' @ a) (PStr (strftime_ymd lib d)))"
    and "time_range_params lib iv ''<'' a v kw
           = Inr (dict_set kw (''end_'' @ a) (PStr (strftime_ymd lib d)))"
    and "Timedelta lib iv = Inr td \<Longrightarrow> dt_minus lib d td = Inr d1 \<Longrightarrow>
         time_range_params lib iv ''>='' a v kw
           = Inr (dict_set kw (''start_'' @ a) (PStr (strftime_ymd lib d1)))"
    and "Timedelta lib iv = Inr td \<Longrightarrow> dt_plus lib d td = Inr d2 \<Longrightarrow>
         time_range_params lib iv ''<='' a v kw
           = Inr (dict_set kw (''end_'' @ a) (PStr (strftime_ymd lib d2)))"
    and "Timedelta lib iv = Inr td \<Longrightarrow> dt_minus lib d td = Inr d1 \<Longrightarrow> dt_plus lib d1 td = Inr d3 \<Longrightarrow>
         time_range_params lib iv ''='' a v kw
           = Inr (dict_set (dict_set kw (''start_'' @ a) (PStr (strftime_ymd lib d1)))
                    (''end_'' @ a) (PStr (strftime_ymd lib d3)))"
  using assms by (simp_all add: time_range_params_def bind_exn_def)

text \<open>
  Claim C1. The claim gives, for \<open>date = '2023-05-01'\<close> with the default interval,
  the parameters \<open>start_date = '2023-04-30'\<close> and \<open>end_date = '2023-05-02'\<close>. On
  scenario B the remote call receives \<open>start_date = '2023-04-30'\<close>,
  \<open>end_date = '2023-05-01'\<close> and \<open>symbol = 'ABC'\<close>: the upper bound is the literal
  date, not the date one interval later.
\<close>

theorem equality_window_ends_at_literal_date:
  "calls (select demo_lib demo_table (response_columns demo_table) scenario_B) ! 0
     = RemoteCall [(''start_date'', PStr ''2023-04-30''), (''end_date'', PStr ''2023-05-01''),
                   (''symbol'', PStr ''ABC'')]"
  by (simp add: run_scenario_B)

subsection \<open>Local filters\<close>

text \<open>
  Claim C2, as amended. Whenever a call of \<open>select\<close> reaches the local filtering,
  the filters it applies are all the conditions of the query, in their order, the ones
  that were pushed down included; and the frame they are applied to has, among its
  columns, the left operand of every equality that the direct pushdown passed on as a
  remote parameter: the staged columns are attached before the filters run.
\<close>

theorem local_filters_are_all_conditions:
  assumes "LocalFilter df fs \<in> set (calls (select lib tc cols qry))"
  shows "fs = where_conditions qry
         \<and> (\<forall>a v. (''='', Some a, v) \<in> set (where_conditions qry)
                \<and> \<not> (has_key (params_fields tc) (''start_'' @ a) \<and> a \<in> set cols \<and> v \<noteq> PNone)
                \<and> (has_key (params_fields tc) a \<or> \<not> truthy (query_strict_filter qry))
                \<longrightarrow> a \<in> set (df_columns df))"
proof (cases "scan lib tc cols qry (where_conditions qry)")
  case (Inl e)
  with assms show ?thesis by (simp add: select_def)
next
  case (Inr st)
  then have f: "filters st = where_conditions qry"
    unfolding scan_def using scan_conditions_filters by (fastforce simp: initial_state_def)
  show ?thesis
  proof (cases "list_all snd (mandatory_args_set st)")
    case False
    with assms Inr show ?thesis by (simp add: select_def)
  next
    case True
    with assms Inr have "LocalFilter df fs \<in> set (calls (select_body lib tc cols qry st))"
      by (auto simp: select_def Let_def split: sum.splits)
    from select_body_calls[OF this] have fs: "fs = filters st"
      and keys: "set (map fst (columns_to_add st)) \<subseteq> set (df_columns df)" by auto
    have "a \<in> set (df_columns df)"
      if "(''='', Some a, v) \<in> set (where_conditions qry)"
        and "\<not> (has_key (params_fields tc) (''start_'' @ a) \<and> a \<in> set cols \<and> v \<noteq> PNone)"
        and "has_key (params_fields tc) a \<or> \<not> truthy (query_strict_filter qry)" for a v
    proof -
      from scan_conditions_staged(2)[OF Inr[unfolded scan_def] that]
      have "a \<in> fst ` set (columns_to_add st)" .
      with keys show ?thesis by auto
    qed
    with fs f show ?thesis by blast
  qed
qed

theorem local_filters_are_all_conditions_witness:
  "LocalFilter prices_frame [(''='', Some ''date'', PStr ''2023-05-01''), (''='', Some ''symbol'', PStr ''ABC'')]
     \<in> set (calls (select demo_lib demo_table (response_columns demo_table) scenario_B))
   \<and> [(''='', Some ''date'', PStr ''2023-05-01''), (''='', Some ''symbol'', PStr ''ABC'')]
       = where_conditions scenario_B
   \<and> ''symbol'' \<in> set (df_columns prices_frame)"
proof -
  have h: "LocalFilter prices_frame [(''='', Some ''date'', PStr ''2023-05-01''), (''='', Some ''symbol'', PStr ''ABC'')]
     \<in> set (calls (select demo_lib demo_table (response_columns demo_table) scenario_B))"
    by (simp add: run_scenario_B)
  note t = local_filters_are_all_conditions[OF h]
  have m: "(''='', Some ''symbol'', PStr ''ABC'') \<in> set (where_conditions scenario_B)"
    by (simp add: scenario_B_def prices_query_def)
  have n: "\<not> (has_key (params_fields demo_table) (''start_'' @ ''symbol'')
              \<and> ''symbol'' \<in> set (response_columns demo_table) \<and> PStr ''ABC'' \<noteq> PNone)"
    by (simp add: has_key_def demo_table_fields)
  have k: "has_key (params_fields demo_table) ''symbol'' \<or> \<not> truthy (query_strict_filter scenario_B)"
    by (simp add: has_key_def demo_table_fields)
  from t m n k have "''symbol'' \<in> set (df_columns prices_frame)" by blast
  with t h show ?thesis by simp
qed

text \<open>
  Claim C2 as stated fails on scenario B: both conditions are consumed by a pushdown,
  so the specification leaves no local filter, and \<open>select\<close> filters the frame by
  both, the date among them as an exact match.
\<close>

theorem pushed_conditions_are_filtered_locally:
  "calls (select demo_lib demo_table (response_columns demo_table) scenario_B) ! 1
     = LocalFilter prices_frame
         [(''='', Some ''date'', PStr ''2023-05-01''), (''='', Some ''symbol'', PStr ''ABC'')]
   \<and> spec_local_filters demo_table (response_columns demo_table) scenario_B = []"
proof
  show "calls (select demo_lib demo_table (response_columns demo_table) scenario_B) ! 1
     = LocalFilter prices_frame
         [(''='', Some ''date'', PStr ''2023-05-01''), (''='', Some ''symbol'', PStr ''ABC'')]"
    by (simp add: run_scenario_B)
  show "spec_local_filters demo_table (response_columns demo_table) scenario_B = []"
    by (simp add: spec_local_filters_def time_range_pushed_def directly_pushed_def
        query_strict_filter_def query_arg_params_def get_params_from_conditions_def dict_get_def
        scenario_B_def prices_query_def has_key_def demo_table_fields demo_table_columns)
qed

subsection \<open>Errors that reach the caller\<close>

text \<open>
  Claim C3, as amended. An exception that \<open>select\<close> lets out is one of three: an
  exception of the loop over the conditions, which gets out as it was raised; the
  missing-argument error, whose message ends with the parameter reference; or an
  exception of the remote call or of the post-processing, re-raised as a plain
  \<open>Exception\<close> whose message is the original one followed by the installation and
  typo advice when it contains \<open>Table not found\<close>, by the credential advice when it
  contains \<open>Missing credential\<close> (in both cases only for an exception that is neither
  an \<open>AttributeError\<close> nor a \<open>ValidationError\<close>, and without the reference), and by
  the parameter reference otherwise. The reference has a line with the name, the
  \<open>(optional)\<close> mark and the type of every declared parameter.
\<close>

theorem surfaced_errors:
  assumes "returned (select lib tc cols qry) = Inl e"
  shows "(scan lib tc cols qry (where_conditions qry) = Inl e
          \<or> (\<exists>st. scan lib tc cols qry (where_conditions qry) = Inr st
                \<and> e = Exn NotImplementedError
                      (''You must specify the following arguments in the WHERE statement: ''
                        @ join '', '' (missing_args st) @ ''\<newline>''
                        @ ''\<newline>'' @ docstring tc))
          \<or> (\<exists>st cls msg. scan lib tc cols qry (where_conditions qry) = Inr st
                \<and> returned (select_body lib tc cols qry st) = Inl (Exn cls msg)
                \<and> e = Exn Exception
                      (if cls \<noteq> AttributeError \<and> cls \<noteq> ValidationError \<and> str_in ''Table not found'' msg
                       then msg @ table_not_found_help tc
                       else if cls \<noteq> AttributeError \<and> cls \<noteq> ValidationError \<and> str_in ''Missing credential'' msg
                       then msg @ missing_credential_help
                       else msg @ ''\<newline>\<newline>'' @ docstring tc @ ''.'')))
         \<and> (\<forall>pf \<in> set (params_fields tc).
               str_in (''\<newline>  * '' @ fst pf @ (if required (snd pf) then [] else '' (optional)'') @ '': ''
                        @ annotation_text (annotation (snd pf))) (docstring tc))"
proof
  show "\<forall>pf \<in> set (params_fields tc).
               str_in (''\<newline>  * '' @ fst pf @ (if required (snd pf) then [] else '' (optional)'') @ '': ''
                        @ annotation_text (annotation (snd pf))) (docstring tc)"
  proof
    fix pf assume pf: "pf \<in> set (params_fields tc)"
    let ?line = "''\<newline>  * '' @ fst pf @ (if required (snd pf) then [] else '' (optional)'') @ '': ''
                        @ annotation_text (annotation (snd pf))"
    from pf obtain ys zs where "params_fields tc = ys @ pf # zs" by (auto dest: split_list)
    then have "docstring tc = (''Docstring:'' @ concat (map param_doc ys)) @ ?line
                 @ (''\<newline>'' @ str_opt (description (snd pf)) @ concat (map param_doc zs)
                    @ ''\<newline>\<newline>For more information check '' @ func_docs tc)"
      by (simp add: docstring_def param_docs_def param_doc_def)
    then show "str_in ?line (docstring tc)" using str_in_middle by metis
  qed
next
  let ?s = "scan lib tc cols qry (where_conditions qry)"
  show "?s = Inl e
          \<or> (\<exists>st. ?s = Inr st
                \<and> e = Exn NotImplementedError
                      (''You must specify the following arguments in the WHERE statement: ''
                        @ join '', '' (missing_args st) @ ''\<newline>''
                        @ ''\<newline>'' @ docstring tc))
          \<or> (\<exists>st cls msg. ?s = Inr st
                \<and> returned (select_body lib tc cols qry st) = Inl (Exn cls msg)
                \<and> e = Exn Exception
                      (if cls \<noteq> AttributeError \<and> cls \<noteq> ValidationError \<and> str_in ''Table not found'' msg
                       then msg @ table_not_found_help tc
                       else if cls \<noteq> AttributeError \<and> cls \<noteq> ValidationError \<and> str_in ''Missing credential'' msg
                       then msg @ missing_credential_help
                       else msg @ ''\<newline>\<newline>'' @ docstring tc @ ''.''))"
  proof (cases ?s)
    case (Inl e')
    with assms show ?thesis by (simp add: select_def)
  next
    case (Inr st)
    show ?thesis
    proof (cases "list_all snd (mandatory_args_set st)")
      case False
      with assms Inr have "e = Exn NotImplementedError (missing_args_text tc st)"
        by (simp add: select_def)
      then have "e = Exn NotImplementedError
                      (''You must specify the following arguments in the WHERE statement: ''
                        @ join '', '' (missing_args st) @ ''\<newline>''
                        @ ''\<newline>'' @ docstring tc)"
        by (simp add: missing_args_text_def docstring_def)
      with Inr show ?thesis by blast
    next
      case True
      with assms Inr obtain e0 where b: "returned (select_body lib tc cols qry st) = Inl e0"
        and e: "e = reraise tc e0"
        by (auto simp: select_def Let_def split: sum.splits)
      obtain cls msg where e0: "e0 = Exn cls msg" by (cases e0) auto
      from e e0 reraise_forms[of tc cls msg] b Inr show ?thesis by blast
    qed
  qed
qed

theorem surfaced_errors_witness:
  "returned (select demo_lib demo_table (response_columns demo_table)
      (prices_query [Function ''avg'' [Identifier [''nosuch'']]] [(''='', Some ''symbol'', PStr ''ABC'')] None))
     = Inl (Exn Exception
         (''Unknown column '' @ [CHR 0x27] @ ''nosuch'' @ [CHR 0x27] @ '' in '' @ [CHR 0x27] @ ''field list''
            @ [CHR 0x27] @ ''\<newline>\<newline>'' @ docstring demo_table @ ''.''))
   \<and> str_in ''\<newline>  * symbol: str'' (docstring demo_table)
   \<and> str_in ''\<newline>  * limit (optional): int'' (docstring demo_table)"
proof -
  let ?q = "prices_query [Function ''avg'' [Identifier [''nosuch'']]] [(''='', Some ''symbol'', PStr ''ABC'')] None"
  have h: "returned (select demo_lib demo_table (response_columns demo_table) ?q)
             = Inl (reraise demo_table (unknown_column ''nosuch''))"
    by (simp add: run_unknown_function_column)
  note docs = surfaced_errors[OF h, THEN conjunct2]
  have "(''symbol'', \<lparr>required = True, annotation = TypeName ''str'',
                       description = Some ''Symbol to get data for.''\<rparr>) \<in> set (params_fields demo_table)"
    by (simp add: demo_table_fields)
  from bspec[OF docs this] have a: "str_in ''\<newline>  * symbol: str'' (docstring demo_table)" by simp
  have "(''limit'', \<lparr>required = False, annotation = TypeName ''int'', description = None\<rparr>)
          \<in> set (params_fields demo_table)"
    by (simp add: demo_table_fields)
  from bspec[OF docs this] have b: "str_in ''\<newline>  * limit (optional): int'' (docstring demo_table)" by simp
  from h a b show ?thesis by (simp add: unknown_column_def with_docstring_def)
qed

text \<open>
  Claim C3 as stated fails on a query whose filter is a disjunction: the exception
  that reaches the caller says \<open>OR is not supported\<close> and nothing else, no parameter
  reference follows.
\<close>

theorem or_rejection_has_no_reference:
  "returned (select demo_lib demo_table (response_columns demo_table)
      (prices_query [Star] [(''or'', None, PNone)] None))
     = Inl (Exn NotImplementedError ''OR is not supported'')
   \<and> \<not> str_in (docstring demo_table) ''OR is not supported''"
  by (simp add: run_or docstring_def)

subsection \<open>Targets: validation and fallback\<close>

text \<open>
  Claim C4, as amended. The targets are validated against the translator's column
  list: the list \<open>response_columns\<close> as the call finds it, extended by the columns
  of the filtered frame. On a fresh table that list holds the declared response
  fields; line 171 adds the columns of each result to it in place, so on a table that
  has served a query before it holds the columns of earlier results too. For a call
  that reaches the validation with the frame \<open>result\<close>: when every target is a star,
  an identifier or a function call over an identifier whose last name part in lower
  case is in the column list, and the projection then raises
  \<open>NotImplementedError\<close>, \<open>_select_dataframe\<close> is called once and the frame it
  returns is what \<open>select\<close> returns; when the first target that is not of that kind
  is neither a star, an identifier nor a function call, \<open>_select_dataframe\<close> is
  called once in the same way; when it is an identifier, or a function call over an
  identifier, whose name is neither in \<open>response_columns\<close> nor a column of the
  frame, \<open>select\<close> raises the unknown-column error, through the handlers, and
  \<open>_select_dataframe\<close> is not called. In any call \<open>_select_dataframe\<close> is
  called once or not at all.
\<close>

theorem projection_validation:
  assumes "scan lib tc columns qry (where_conditions qry) = Inr st"
    and "list_all snd (mandatory_args_set st)"
    and "fetch_stage lib tc qry st = (Inr result, evs)"
  shows "set (extend_columns columns result) = set columns \<union> set (df_columns result)
   \<and> filter is_fallback evs = []
   \<and> (list_all (known_target (extend_columns columns result)) (targets qry)
        \<and> project_dataframe lib result (targets qry) (extend_columns columns result)
            = Inl (Exn NotImplementedError m) \<longrightarrow>
      select lib tc columns qry =
        \<lparr>returned = (case select_dataframe lib qry result of
                        Inl e \<Rightarrow> Inl (reraise tc e) | Inr out \<Rightarrow> Inr out),
         calls = evs @ [Fallback qry result],
         columns_after = extend_columns columns result\<rparr>)
   \<and> (targets qry = pre @ OtherTarget n # post
        \<and> list_all (known_target (extend_columns columns result)) pre \<longrightarrow>
      select lib tc columns qry =
        \<lparr>returned = (case select_dataframe lib qry result of
                        Inl e \<Rightarrow> Inl (reraise tc e) | Inr out \<Rightarrow> Inr out),
         calls = evs @ [Fallback qry result],
         columns_after = extend_columns columns result\<rparr>)
   \<and> (targets qry = pre @ t # post
        \<and> list_all (known_target (extend_columns columns result)) pre
        \<and> (t = Identifier parts \<or> t = Function f (Identifier parts # args))
        \<and> parts \<noteq> [] \<and> lower (last parts) \<notin> set columns
        \<and> lower (last parts) \<notin> set (df_columns result) \<longrightarrow>
      select lib tc columns qry =
        \<lparr>returned = Inl (reraise tc (Exn ValueError
                        (''Unknown column '' @ [CHR 0x27] @ lower (last parts) @ [CHR 0x27] @ '' in ''
                          @ [CHR 0x27] @ ''field list'' @ [CHR 0x27]))),
         calls = evs, columns_after = extend_columns columns result\<rparr>)
   \<and> ((\<exists>d. returned (select lib' tc' shown q)
               = (case select_dataframe lib' q d of Inl e \<Rightarrow> Inl (reraise tc' e) | Inr out \<Rightarrow> Inr out)
            \<and> filter is_fallback (calls (select lib' tc' shown q)) = [Fallback q d])
        \<or> filter is_fallback (calls (select lib' tc' shown q)) = [])"
proof -
  let ?known = "extend_columns columns result"
  let ?deferred = "\<lparr>returned = (case select_dataframe lib qry result of
                        Inl e \<Rightarrow> Inl (reraise tc e) | Inr out \<Rightarrow> Inr out),
         calls = evs @ [Fallback qry result], columns_after = ?known\<rparr>"
  note sel = select_reaches_projection[OF assms]
  have a: "select lib tc columns qry = ?deferred"
    if "list_all (known_target ?known) (targets qry)
        \<and> project_dataframe lib result (targets qry) ?known = Inl (Exn NotImplementedError m)"
    using that
    by (auto simp: sel project_stage_def check_targets_known run_fallback_def split: sum.splits)
  have b: "select lib tc columns qry = ?deferred"
    if "targets qry = pre @ OtherTarget n # post \<and> list_all (known_target ?known) pre"
    using that
    by (auto simp: sel project_stage_def check_targets_known_prefix run_fallback_def split: sum.splits)
  have c: "select lib tc columns qry =
        \<lparr>returned = Inl (reraise tc (Exn ValueError
                        (''Unknown column '' @ [CHR 0x27] @ lower (last parts) @ [CHR 0x27] @ '' in ''
                          @ [CHR 0x27] @ ''field list'' @ [CHR 0x27]))),
         calls = evs, columns_after = ?known\<rparr>"
    if h: "targets qry = pre @ t # post \<and> list_all (known_target ?known) pre
        \<and> (t = Identifier parts \<or> t = Function f (Identifier parts # args))
        \<and> parts \<noteq> [] \<and> lower (last parts) \<notin> set columns
        \<and> lower (last parts) \<notin> set (df_columns result)"
  proof -
    from h have "lower (last parts) \<notin> set ?known" by (simp add: set_extend_columns)
    with h have "check_targets ?known (targets qry) = Inl (unknown_column (lower (last parts)))"
      by (auto simp: check_targets_known_prefix check_column_def)
    then show ?thesis by (simp add: sel project_stage_def unknown_column_def)
  qed
  from a b c set_extend_columns[of columns result] fetch_stage_events(1)[OF assms(3)]
    select_fallback[of lib' tc' shown q]
  show ?thesis by blast
qed

theorem projection_validation_witness:
  "select demo_lib demo_table (response_columns demo_table)
      (prices_query [Function ''avg'' [Identifier [''close'']]] [(''='', Some ''symbol'', PStr ''ABC'')] None)
     = \<lparr>returned = Inr \<lparr>df_index = OtherIndex, df_columns = [''duckdb''],
                          df_rows = [[PStr ''SELECT avg(close) FROM df'']]\<rparr>,
        calls = [RemoteCall [(''symbol'', PStr ''ABC'')],
                 LocalFilter prices_frame [(''='', Some ''symbol'', PStr ''ABC'')],
                 Fallback (prices_query [Function ''avg'' [Identifier [''close'']]]
                             [(''='', Some ''symbol'', PStr ''ABC'')] None) prices_frame],
        columns_after = [''date'', ''close'', ''symbol'']\<rparr>
   \<and> select demo_lib demo_table [''date'', ''close'', ''symbol'', ''foo'']
      (prices_query [Function ''avg'' [Identifier [''foo'']]] [(''='', Some ''symbol'', PStr ''ABC'')] None)
     = \<lparr>returned = Inr \<lparr>df_index = OtherIndex, df_columns = [''duckdb''],
                          df_rows = [[PStr ''SELECT avg(foo) FROM df'']]\<rparr>,
        calls = [RemoteCall [(''symbol'', PStr ''ABC'')],
                 LocalFilter prices_frame [(''='', Some ''symbol'', PStr ''ABC'')],
                 Fallback (prices_query [Function ''avg'' [Identifier [''foo'']]]
                             [(''='', Some ''symbol'', PStr ''ABC'')] None) prices_frame],
        columns_after = [''date'', ''close'', ''symbol'', ''foo'']\<rparr>
   \<and> select demo_lib demo_table (response_columns demo_table)
      (prices_query [Star, OtherTarget ''BinaryOperation'', Identifier [''nosuch'']]
         [(''='', Some ''symbol'', PStr ''ABC'')] None)
     = \<lparr>returned = Inr \<lparr>df_index = OtherIndex, df_columns = [''duckdb''],
                          df_rows = [[PStr ''SELECT *, BinaryOperation, nosuch FROM df'']]\<rparr>,
        calls = [RemoteCall [(''symbol'', PStr ''ABC'')],
                 LocalFilter prices_frame [(''='', Some ''symbol'', PStr ''ABC'')],
                 Fallback (prices_query [Star, OtherTarget ''BinaryOperation'', Identifier [''nosuch'']]
                             [(''='', Some ''symbol'', PStr ''ABC'')] None) prices_frame],
        columns_after = [''date'', ''close'', ''symbol'']\<rparr>
   \<and> select demo_lib demo_table (response_columns demo_table)
      (prices_query [Identifier [''close''], Identifier [''prices'', ''nosuch'']]
         [(''='', Some ''symbol'', PStr ''ABC'')] None)
     = \<lparr>returned = Inl (Exn Exception
                       (''Unknown column '' @ [CHR 0x27] @ ''nosuch'' @ [CHR 0x27] @ '' in ''
                          @ [CHR 0x27] @ ''field list'' @ [CHR 0x27]
                          @ ''\<newline>\<newline>'' @ docstring demo_table @ ''.'')),
        calls = [RemoteCall [(''symbol'', PStr ''ABC'')],
                 LocalFilter prices_frame [(''='', Some ''symbol'', PStr ''ABC'')]],
        columns_after = [''date'', ''close'', ''symbol'']\<rparr>"
proof -
  let ?conds = "[(''='', Some ''symbol'', PStr ''ABC'')]"
  let ?st = "\<lparr>params = [(''symbol'', PStr ''ABC'')], filters = ?conds,
              mandatory_args_set = [(''symbol'', True)], columns_to_add = [(''symbol'', PStr ''ABC'')]\<rparr>"
  let ?evs = "[RemoteCall [(''symbol'', PStr ''ABC'')], LocalFilter prices_frame ?conds]"
  let ?q1 = "prices_query [Function ''avg'' [Identifier [''close'']]] ?conds None"
  let ?q2 = "prices_query [Function ''avg'' [Identifier [''foo'']]] ?conds None"
  let ?q3 = "prices_query [Star, OtherTarget ''BinaryOperation'', Identifier [''nosuch'']] ?conds None"
  let ?q4 = "prices_query [Identifier [''close''], Identifier [''prices'', ''nosuch'']] ?conds None"
  let ?fresh = "response_columns demo_table"
  let ?grown = "[''date'', ''close'', ''symbol'', ''foo'']"
  have flags: "list_all snd (mandatory_args_set ?st)" by simp
  have wc: "where_conditions (prices_query ts c n) = c" for ts c n
    by (simp add: prices_query_def)
  have tg: "targets (prices_query ts c n) = ts" for ts c n
    by (simp add: prices_query_def)
  have sc: "scan demo_lib demo_table cols (prices_query ts ?conds None)
              (where_conditions (prices_query ts ?conds None)) = Inr ?st" for cols ts
    by (simp add: wc run_scan)
  have ext: "extend_columns ?fresh prices_frame = [''date'', ''close'', ''symbol'']"
    "extend_columns [''date'', ''close''] prices_frame = [''date'', ''close'', ''symbol'']"
    "extend_columns ?grown prices_frame = ?grown"
    by (simp_all add: extend_columns_def prices_frame_def demo_table_columns)
  have low: "lower ''foo'' = ''foo''" by code_simp
  have frame: "df_columns prices_frame = [''date'', ''close'', ''symbol'']"
    by (simp add: prices_frame_def)
  have sd: "select_dataframe demo_lib ?q1 prices_frame
              = Inr \<lparr>df_index = OtherIndex, df_columns = [''duckdb''],
                     df_rows = [[PStr ''SELECT avg(close) FROM df'']]\<rparr>"
    "select_dataframe demo_lib ?q2 prices_frame
              = Inr \<lparr>df_index = OtherIndex, df_columns = [''duckdb''],
                     df_rows = [[PStr ''SELECT avg(foo) FROM df'']]\<rparr>"
    "select_dataframe demo_lib ?q3 prices_frame
              = Inr \<lparr>df_index = OtherIndex, df_columns = [''duckdb''],
                     df_rows = [[PStr ''SELECT *, BinaryOperation, nosuch FROM df'']]\<rparr>"
    by (simp_all add: select_dataframe_def prices_query_def demo_lib_fields demo_to_string_def
        demo_duckdb_query_def Let_def)
  have one: "select demo_lib demo_table ?fresh ?q1
     = \<lparr>returned = Inr \<lparr>df_index = OtherIndex, df_columns = [''duckdb''],
                          df_rows = [[PStr ''SELECT avg(close) FROM df'']]\<rparr>,
        calls = ?evs @ [Fallback ?q1 prices_frame], columns_after = [''date'', ''close'', ''symbol'']\<rparr>"
  proof -
    have k: "list_all (known_target (extend_columns ?fresh prices_frame)) (targets ?q1)"
      by (simp add: ext tg demo_lower)
    have p: "project_dataframe demo_lib prices_frame (targets ?q1) (extend_columns ?fresh prices_frame)
               = Inl (Exn NotImplementedError ''Unknown query target avg'')"
      by (simp add: tg demo_lib_fields demo_project_dataframe_def)
    from projection_validation[where lib = demo_lib and tc = demo_table and columns = ?fresh
        and qry = ?q1 and st = ?st and result = prices_frame and evs = ?evs
        and m = "''Unknown query target avg''", OF sc flags run_fetch,
        THEN conjunct2, THEN conjunct2, THEN conjunct1, rule_format, OF conjI[OF k p]]
    show ?thesis by (simp add: ext sd)
  qed
  have two: "select demo_lib demo_table ?grown ?q2
     = \<lparr>returned = Inr \<lparr>df_index = OtherIndex, df_columns = [''duckdb''],
                          df_rows = [[PStr ''SELECT avg(foo) FROM df'']]\<rparr>,
        calls = ?evs @ [Fallback ?q2 prices_frame], columns_after = ?grown\<rparr>"
  proof -
    have k: "list_all (known_target (extend_columns ?grown prices_frame)) (targets ?q2)"
      by (simp add: ext tg low)
    have p: "project_dataframe demo_lib prices_frame (targets ?q2) (extend_columns ?grown prices_frame)
               = Inl (Exn NotImplementedError ''Unknown query target avg'')"
      by (simp add: tg demo_lib_fields demo_project_dataframe_def)
    from projection_validation[where lib = demo_lib and tc = demo_table and columns = ?grown
        and qry = ?q2 and st = ?st and result = prices_frame and evs = ?evs
        and m = "''Unknown query target avg''", OF sc flags run_fetch,
        THEN conjunct2, THEN conjunct2, THEN conjunct1, rule_format, OF conjI[OF k p]]
    show ?thesis by (simp add: ext sd)
  qed
  have three: "select demo_lib demo_table ?fresh ?q3
     = \<lparr>returned = Inr \<lparr>df_index = OtherIndex, df_columns = [''duckdb''],
                          df_rows = [[PStr ''SELECT *, BinaryOperation, nosuch FROM df'']]\<rparr>,
        calls = ?evs @ [Fallback ?q3 prices_frame], columns_after = [''date'', ''close'', ''symbol'']\<rparr>"
  proof -
    have h: "targets ?q3 = [Star] @ OtherTarget ''BinaryOperation'' # [Identifier [''nosuch'']]
             \<and> list_all (known_target (extend_columns ?fresh prices_frame)) [Star]"
      by (simp add: tg)
    from projection_validation[where lib = demo_lib and tc = demo_table and columns = ?fresh
        and qry = ?q3 and st = ?st and result = prices_frame and evs = ?evs
        and pre = "[Star]" and n = "''BinaryOperation''" and post = "[Identifier [''nosuch'']]",
        OF sc flags run_fetch,
        THEN conjunct2, THEN conjunct2, THEN conjunct2, THEN conjunct1, rule_format, OF h]
    show ?thesis by (simp add: ext sd)
  qed
  have four: "select demo_lib demo_table ?fresh ?q4
     = \<lparr>returned = Inl (reraise demo_table (Exn ValueError
                        (''Unknown column '' @ [CHR 0x27] @ lower (last [''prices'', ''nosuch'']) @ [CHR 0x27]
                          @ '' in '' @ [CHR 0x27] @ ''field list'' @ [CHR 0x27]))),
        calls = ?evs, columns_after = [''date'', ''close'', ''symbol'']\<rparr>"
  proof -
    have h: "targets ?q4 = [Identifier [''close'']] @ Identifier [''prices'', ''nosuch''] # []
             \<and> list_all (known_target (extend_columns ?fresh prices_frame)) [Identifier [''close'']]
             \<and> (Identifier [''prices'', ''nosuch''] = Identifier [''prices'', ''nosuch'']
                  \<or> Identifier [''prices'', ''nosuch''] = Function f (Identifier [''prices'', ''nosuch''] # args))
             \<and> [''prices'', ''nosuch''] \<noteq> []
             \<and> lower (last [''prices'', ''nosuch'']) \<notin> set ?fresh
             \<and> lower (last [''prices'', ''nosuch'']) \<notin> set (df_columns prices_frame)" for f args
      by (simp add: tg ext demo_lower demo_table_columns frame)
    from projection_validation[where lib = demo_lib and tc = demo_table and columns = ?fresh
        and qry = ?q4 and st = ?st and result = prices_frame and evs = ?evs
        and pre = "[Identifier [''close'']]" and t = "Identifier [''prices'', ''nosuch'']"
        and parts = "[''prices'', ''nosuch'']" and post = "[]",
        OF sc flags run_fetch,
        THEN conjunct2, THEN conjunct2, THEN conjunct2, THEN conjunct2, THEN conjunct1,
        rule_format, OF h]
    show ?thesis by (simp add: ext)
  qed
  from one two three four show ?thesis
    by (simp add: demo_lower with_docstring_def)
qed

text \<open>
  Claim C4 as stated fails on \<open>SELECT avg(nosuch)\<close>: the target is a function call,
  and \<open>select\<close> raises the unknown-column error without calling
  \<open>_select_dataframe\<close>.
\<close>

theorem function_over_unknown_column_is_not_deferred:
  "returned (select demo_lib demo_table (response_columns demo_table)
      (prices_query [Function ''avg'' [Identifier [''nosuch'']]] [(''='', Some ''symbol'', PStr ''ABC'')] None))
     = Inl (Exn Exception
         (''Unknown column '' @ [CHR 0x27] @ ''nosuch'' @ [CHR 0x27] @ '' in '' @ [CHR 0x27] @ ''field list''
            @ [CHR 0x27] @ ''\<newline>\<newline>'' @ docstring demo_table @ ''.''))
   \<and> \<not> list_ex is_fallback (calls (select demo_lib demo_table (response_columns demo_table)
      (prices_query [Function ''avg'' [Identifier [''nosuch'']]] [(''='', Some ''symbol'', PStr ''ABC'')] None)))"
  by (simp add: run_unknown_function_column unknown_column_def with_docstring_def is_fallback_def)

subsection \<open>An empty result after the limit\<close>

text \<open>
  Claim C5. The claim has \<open>select\<close> fail when the frame is empty after the local
  limit. With \<open>LIMIT 0\<close> the remote call gives three rows, \<open>head(0)\<close> leaves none,
  and \<open>select\<close> returns the empty frame: the test after \<open>head\<close> asks whether
  the frame is \<open>None\<close>, which a frame never is.
\<close>

theorem empty_frame_after_limit_is_returned:
  "returned (select demo_lib demo_table (response_columns demo_table)
      (prices_query [Star] [(''='', Some ''symbol'', PStr ''ABC'')] (Some 0)))
     = Inr \<lparr>df_index = OtherIndex, df_columns = [''date'', ''close'', ''symbol''], df_rows = []\<rparr>"
  by (simp add: run_limit_zero)

subsection \<open>The gate on required parameters\<close>




subsection \<open>Disjunctions\<close>

text \<open>
  Claim C7. For every call of \<open>select\<close> whose conditions are what the extractor
  gives for a filter tree with a disjunction, the \<open>or\<close> sentinel triple, \<open>select\<close>
  raises the \<open>NotImplementedError\<close> that says \<open>OR is not supported\<close>, and the
  remote function is not called. The same holds of any sequence of conditions that
  holds an \<open>or\<close> triple and whose conditions before that triple the loop gets
  through; and if one of those raises, which no sequence of the extractor can bring
  about, that exception is the one raised, and still the remote function is not
  called.
\<close>

theorem or_is_rejected:
  "(has_disjunction t \<and> where_conditions qry = extract_comparison_conditions t \<longrightarrow>
      returned (select lib tc cols qry) = Inl (Exn NotImplementedError ''OR is not supported'')
      \<and> calls (select lib tc cols qry) = [])
   \<and> (where_conditions qry = pre @ (''or'', a, v) # post \<longrightarrow>
      calls (select lib tc cols qry) = []
      \<and> (\<forall>st. scan lib tc cols qry pre = Inr st \<longrightarrow>
            returned (select lib tc cols qry) = Inl (Exn NotImplementedError ''OR is not supported''))
      \<and> (\<forall>e. scan lib tc cols qry pre = Inl e \<longrightarrow> returned (select lib tc cols qry) = Inl e))"
proof (intro conjI impI)
  assume h: "has_disjunction t \<and> where_conditions qry = extract_comparison_conditions t"
  then have w: "where_conditions qry = [] @ (''or'', None, PNone) # []"
    by (simp add: extract_comparison_conditions_def)
  have s: "scan lib tc cols qry [] = Inr (initial_state tc)"
    by (simp add: scan_def)
  from or_triple_anywhere(2)[OF w s]
  show "returned (select lib tc cols qry) = Inl (Exn NotImplementedError ''OR is not supported'')" .
  from or_triple_anywhere(1)[OF w] show "calls (select lib tc cols qry) = []" .
next
  assume w: "where_conditions qry = pre @ (''or'', a, v) # post"
  from or_triple_anywhere(1)[OF w] show "calls (select lib tc cols qry) = []" .
  from or_triple_anywhere(2)[OF w]
  show "\<forall>st. scan lib tc cols qry pre = Inr st \<longrightarrow>
            returned (select lib tc cols qry) = Inl (Exn NotImplementedError ''OR is not supported'')"
    by blast
  from or_triple_anywhere(3)[OF w]
  show "\<forall>e. scan lib tc cols qry pre = Inl e \<longrightarrow> returned (select lib tc cols qry) = Inl e"
    by blast
qed

theorem or_is_rejected_witness:
  "extract_comparison_conditions
      (Conjunction (Comparison ''>'' ''date'' (PStr ''2023-05-01''))
         (Disjunction (Comparison ''='' ''symbol'' (PStr ''ABC''))
                      (Comparison ''='' ''symbol'' (PStr ''XYZ''))))
     = [(''or'', None, PNone)]
   \<and> returned (select demo_lib demo_table (response_columns demo_table)
        (prices_query [Star] [(''or'', None, PNone)] None))
       = Inl (Exn NotImplementedError ''OR is not supported'')
   \<and> calls (select demo_lib demo_table (response_columns demo_table)
        (prices_query [Star] [(''or'', None, PNone)] None)) = []
   \<and> calls (select demo_lib demo_table (response_columns demo_table)
      (prices_query [Star] [(''='', Some ''symbol'', PStr ''ABC''), (''or'', None, PNone)] None)) = []
   \<and> returned (select demo_lib demo_table (response_columns demo_table)
      (prices_query [Star] [(''='', Some ''symbol'', PStr ''ABC''), (''or'', None, PNone)] None))
       = Inl (Exn NotImplementedError ''OR is not supported'')"
proof -
  let ?t = "Conjunction (Comparison ''>'' ''date'' (PStr ''2023-05-01''))
         (Disjunction (Comparison ''='' ''symbol'' (PStr ''ABC''))
                      (Comparison ''='' ''symbol'' (PStr ''XYZ'')))"
  let ?sentinel_only = "prices_query [Star] [(''or'', None, PNone)] None"
  let ?after_equality = "prices_query [Star] [(''='', Some ''symbol'', PStr ''ABC''), (''or'', None, PNone)] None"
  have x: "extract_comparison_conditions ?t = [(''or'', None, PNone)]"
    by (simp add: extract_comparison_conditions_def)
  have d: "has_disjunction ?t \<and> where_conditions ?sentinel_only = extract_comparison_conditions ?t"
    by (simp add: extract_comparison_conditions_def prices_query_def)
  note first = or_is_rejected[where t = ?t and qry = ?sentinel_only and lib = demo_lib and tc = demo_table
      and cols = "response_columns demo_table", THEN conjunct1, rule_format, OF d]
  have w: "where_conditions ?after_equality = [(''='', Some ''symbol'', PStr ''ABC'')] @ (''or'', None, PNone) # []"
    by (simp add: prices_query_def)
  have s: "scan demo_lib demo_table (response_columns demo_table) ?after_equality [(''='', Some ''symbol'', PStr ''ABC'')]
             = Inr \<lparr>params = [(''symbol'', PStr ''ABC'')],
                    filters = [(''='', Some ''symbol'', PStr ''ABC'')],
                    mandatory_args_set = [(''symbol'', True)],
                    columns_to_add = [(''symbol'', PStr ''ABC'')]\<rparr>"
    by (simp add: scan_eval)
  note second = or_is_rejected[where qry = ?after_equality and lib = demo_lib and tc = demo_table
      and cols = "response_columns demo_table" and pre = "[(''='', Some ''symbol'', PStr ''ABC'')]"
      and a = None and v = PNone and post = "[]", THEN conjunct2, rule_format, OF w]
  from second s have "calls (select demo_lib demo_table (response_columns demo_table) ?after_equality) = []"
    and "returned (select demo_lib demo_table (response_columns demo_table) ?after_equality)
           = Inl (Exn NotImplementedError ''OR is not supported'')"
    by simp_all
  with x first show ?thesis by simp
qed

end
